theory Spec2Isabelle
  imports Main "HOL-Library.Sublist"
begin

section \<open>JavaScript values used by the portal scripts\<close>

text \<open>
  A DOM property read through optional chaining (\<^verbatim>\<open>el?.content\<close>) is either
  \<^verbatim>\<open>undefined\<close> (\<open>None\<close>) or a string. JavaScript treats \<^verbatim>\<open>undefined\<close> and
  the empty string as falsy.
\<close>

definition falsy :: "string option \<Rightarrow> bool" where
  "falsy t = (case t of None \<Rightarrow> True | Some v \<Rightarrow> v = [])"

definition startsWith :: "string \<Rightarrow> string \<Rightarrow> bool" where
  "startsWith s p = (take (length p) s = p)"

text \<open>
  \<^verbatim>\<open>String.prototype.split\<close> with a string separator: the pieces between the
  occurrences of the separator, scanned left to right. \<open>acc\<close> is the piece being read.
\<close>

function js_split_from :: "string \<Rightarrow> string \<Rightarrow> string \<Rightarrow> string list" where
  "js_split_from sep acc s =
     (if s = [] then acc # []
      else if sep \<noteq> [] \<and> take (length sep) s = sep
        then acc # js_split_from sep [] (drop (length sep) s)
      else js_split_from sep (acc @ (hd s # [])) (tl s))"
  by pat_completeness auto
termination
  by (relation "measure (\<lambda>(sep, acc, s). length s)") auto

definition js_split :: "string \<Rightarrow> string \<Rightarrow> string list" where
  "js_split sep s = (if sep = [] then map (\<lambda>c. c # []) s else js_split_from sep [] s)"

text \<open>Array indexing: out of range is \<^verbatim>\<open>undefined\<close>.\<close>

definition js_index :: "'a list \<Rightarrow> nat \<Rightarrow> 'a option" where
  "js_index xs i = (if i < length xs then Some (xs ! i) else None)"

section \<open>Anti-forgery token lookup (getCSRFToken)\<close>

text \<open>
  What the lookup reads of the page: the \<^verbatim>\<open>content\<close> of the first element matching
  \<^verbatim>\<open>[name=csrf-token]\<close>, the \<^verbatim>\<open>value\<close> of the first element matching
  \<^verbatim>\<open>[name=csrfmiddlewaretoken]\<close>, \<^verbatim>\<open>document.cookie\<close> and
  \<^verbatim>\<open>window.location.href\<close>.
\<close>

record dom =
  metaContent :: "string option"
  formValue :: "string option"
  cookie :: string
  href :: string

text \<open>The cookie branch: the row of \<^verbatim>\<open>document.cookie.split('; ')\<close> that starts with
  \<^verbatim>\<open>csrftoken=\<close>, then \<^verbatim>\<open>split('=')[1]\<close> of it.\<close>

definition cookieToken :: "string \<Rightarrow> string option \<Rightarrow> string option" where
  "cookieToken ck token =
     (case find (\<lambda>row. startsWith row ''csrftoken='') (js_split ''; '' ck) of
        None \<Rightarrow> token
      | Some cookieValue \<Rightarrow> js_index (js_split ''='' cookieValue) 1)"

definition getCSRFToken :: "dom \<Rightarrow> string option" where
  "getCSRFToken d =
     (let token = metaContent d;
          token = (if falsy token then formValue d else token);
          token = (if falsy token then cookieToken (cookie d) token else token)
      in token)"

section \<open>Violation log queue (logActivity, processQueue / processLogQueue)\<close>

record item =
  itype :: string
  idescription :: string
  itime :: int

text \<open>The request handed to \<^verbatim>\<open>fetch\<close>: the token header and the JSON body. The body's
  \<^verbatim>\<open>timestamp\<close> is the ISO rendering of the item's enqueue time; the model keeps the
  number.\<close>

record request =
  x_csrftoken :: string
  violation_type :: string
  description :: string
  timestamp :: int
  page_url :: string

record logger =
  logQueue :: "item list"
  isLogging :: bool
  lastLogTime :: "int option"

text \<open>
  What one call of the drain function did. In the three cases other than \<open>Idle\<close> the
  source arms \<^verbatim>\<open>setTimeout(processQueue, 100)\<close> (for \<open>Sent\<close>, in the \<^verbatim>\<open>finally\<close>
  of the request, whatever its result).
\<close>

datatype outcome = Idle | Deferred | TokenMissing | Sent request

text \<open>\<^verbatim>\<open>window.lastLogTime && (now - window.lastLogTime) < 2000\<close>: an unset or zero
  time stamp is falsy.\<close>

definition debounced :: "int \<Rightarrow> int option \<Rightarrow> bool" where
  "debounced now l = (case l of None \<Rightarrow> False | Some t \<Rightarrow> t \<noteq> 0 \<and> now - t < 2000)"

text \<open>
  \<^verbatim>\<open>processQueue\<close> of customer-security-strict and \<^verbatim>\<open>processLogQueue\<close> of
  customer_security_warning_only are the same function but for their console output: the
  head of the queue is shifted off, the debounce test is made, the attempt is time-stamped,
  the token is looked up, the request is sent.
\<close>

definition processQueue :: "dom \<Rightarrow> int \<Rightarrow> logger \<Rightarrow> logger \<times> outcome" where
  "processQueue d now s =
     (case logQueue s of
        [] \<Rightarrow> (s\<lparr>isLogging := False\<rparr>, Idle)
      | it # rest \<Rightarrow>
          (let s1 = s\<lparr>isLogging := True, logQueue := rest\<rparr> in
           if debounced now (lastLogTime s1) then (s1, Deferred)
           else
             (let s2 = s1\<lparr>lastLogTime := Some now\<rparr> in
              case getCSRFToken d of
                None \<Rightarrow> (s2, TokenMissing)
              | Some csrfToken \<Rightarrow>
                  if csrfToken = [] then (s2, TokenMissing)
                  else (s2, Sent \<lparr>x_csrftoken = csrfToken,
                                   violation_type = itype it,
                                   description = idescription it,
                                   timestamp = itime it,
                                   page_url = href d\<rparr>))))"





fun deliveries :: "(int \<times> outcome) list \<Rightarrow> (int \<times> request) list" where
  "deliveries [] = []"
| "deliveries ((t, Sent r) # outs) = (t, r) # deliveries outs"
| "deliveries (_ # outs) = deliveries outs"








section \<open>Keyboard handlers\<close>

text \<open>
  The fields of a keyboard event the handlers read, and of its target element what
  \<^verbatim>\<open>isExemptedElement\<close> reads: the tag name and whether
  \<^verbatim>\<open>closest('#tawkchat-container, iframe[src*="tawk"]')\<close> finds an ancestor.
\<close>

record element =
  tagName :: string
  insideTawk :: bool

record keyEvent =
  key :: string
  keyCode :: nat
  ctrlKey :: bool
  shiftKey :: bool
  metaKey :: bool
  altKey :: bool
  target :: "element option"

text \<open>What a handler did with the event: \<^verbatim>\<open>preventDefault\<close>, \<^verbatim>\<open>stopPropagation\<close>,
  the warning shown (without its leading pictograph) and the violation logged (type and
  description).\<close>

record handled =
  prevented :: bool
  stopped :: bool
  warned :: "string option"
  logged :: "(string \<times> string) option"

definition passed :: handled where
  "passed = \<lparr>prevented = False, stopped = False, warned = None, logged = None\<rparr>"

text \<open>\<^verbatim>\<open>isExemptedElement\<close> of customer-security-strict.\<close>

definition isExemptedElement :: "element option \<Rightarrow> bool" where
  "isExemptedElement el =
     (case el of
        None \<Rightarrow> False
      | Some e \<Rightarrow>
          if tagName e \<in> set [''INPUT'', ''TEXTAREA'', ''SELECT'', ''BUTTON''] then True
          else if insideTawk e then True
          else False)"

definition blockWith :: "string \<Rightarrow> (string \<times> string) option \<Rightarrow> handled" where
  "blockWith msg lg = \<lparr>prevented = True, stopped = False, warned = Some msg, logged = lg\<rparr>"

text \<open>The \<^verbatim>\<open>keydown\<close> listener of customer-security-strict (section 6 of that file).
  The last three branches return only when the target is not exempt; otherwise control
  falls through to the next test.\<close>

definition strictKeydown :: "keyEvent \<Rightarrow> handled" where
  "strictKeydown e =
     (if keyCode e = 123 \<or> key e = ''F12''
        then blockWith ''Developer tools are disabled'' (Some (''f12_blocked'', ''F12 pressed''))
      else if ctrlKey e \<and> shiftKey e \<and> (keyCode e = 73 \<or> key e = ''I'')
        then blockWith ''Inspect element is disabled'' (Some (''inspect_blocked'', ''Ctrl+Shift+I pressed''))
      else if ctrlKey e \<and> shiftKey e \<and> (keyCode e = 74 \<or> key e = ''J'')
        then blockWith ''Console is disabled'' (Some (''console_blocked'', ''Ctrl+Shift+J pressed''))
      else if ctrlKey e \<and> shiftKey e \<and> (keyCode e = 67 \<or> key e = ''C'')
        then blockWith ''Inspect is disabled'' (Some (''inspect_blocked'', ''Ctrl+Shift+C pressed''))
      else if ctrlKey e \<and> (keyCode e = 85 \<or> key e = ''u'')
        then blockWith ''View source is disabled'' (Some (''view_source_blocked'', ''Ctrl+U pressed''))
      else if ctrlKey e \<and> (keyCode e = 83 \<or> key e = ''s'')
        then blockWith ''Save is disabled'' (Some (''save_blocked'', ''Ctrl+S pressed''))
      else if ctrlKey e \<and> (keyCode e = 80 \<or> key e = ''p'')
        then blockWith ''Print is disabled'' (Some (''print_blocked'', ''Ctrl+P pressed''))
      else if ctrlKey e \<and> (keyCode e = 67 \<or> key e = ''c'') \<and> \<not> shiftKey e
              \<and> \<not> isExemptedElement (target e)
        then blockWith ''Copy is disabled'' (Some (''ctrl_c_blocked'', ''Ctrl+C pressed''))
      else if ctrlKey e \<and> (keyCode e = 88 \<or> key e = ''x'') \<and> \<not> isExemptedElement (target e)
        then blockWith ''Cut is disabled'' (Some (''ctrl_x_blocked'', ''Ctrl+X pressed''))
      else if ctrlKey e \<and> (keyCode e = 65 \<or> key e = ''a'') \<and> \<not> isExemptedElement (target e)
        then blockWith ''Select all is disabled'' None
      else passed)"

text \<open>The \<^verbatim>\<open>keyup\<close> listener of customer-security-strict: it clears the clipboard,
  warns, logs and blurs, and never calls \<^verbatim>\<open>preventDefault\<close>.\<close>

definition strictKeyup :: "keyEvent \<Rightarrow> handled" where
  "strictKeyup e =
     (if key e = ''PrintScreen'' \<or> keyCode e = 44
        then \<lparr>prevented = False, stopped = False, warned = Some ''Screenshots are disabled'',
              logged = Some (''printscreen_blocked'', ''PrintScreen pressed'')\<rparr>
      else passed)"

text \<open>Decimal rendering of a number that is a natural number, as JavaScript's
  number-to-string conversion gives it.\<close>

fun string_of_nat :: "nat \<Rightarrow> string" where
  "string_of_nat n =
     (if n < 10 then char_of (48 + n) # []
      else string_of_nat (n div 10) @ (char_of (48 + n mod 10) # []))"

declare string_of_nat.simps [simp del]

text \<open>\<^verbatim>\<open>showViolationAlert\<close> of customer-security-final: the message looked up by
  violation type, with a default.\<close>

definition violationAlert :: "string \<Rightarrow> string" where
  "violationAlert ty =
     (case map_of [(''screenshot_attempt'', ''Screenshots are not allowed''),
                   (''copy_attempt'', ''Content copying is disabled''),
                   (''devtools_detected'', ''Developer tools are not permitted''),
                   (''right_click_attempt'', ''Right-click is disabled''),
                   (''drag_attempt'', ''Drag & drop is not allowed'')] ty of
        Some message \<Rightarrow> message
      | None \<Rightarrow> ''Security violation detected'')"

text \<open>The \<^verbatim>\<open>keydown\<close> listener of customer-security-final: six tests in sequence, each
  overwriting \<^verbatim>\<open>blocked\<close> and \<^verbatim>\<open>violationType\<close>; the description is
  \<^verbatim>\<open>`Key combination: ${e.key || e.keyCode}`\<close>.\<close>

definition finalKeydown :: "keyEvent \<Rightarrow> handled" where
  "finalKeydown e =
     (let st = (False, []);
          st = (if keyCode e = 44 \<or> key e = ''PrintScreen'' then (True, ''screenshot_attempt'') else st);
          st = (if key e = ''Meta'' \<and> shiftKey e \<and> keyCode e = 83
                then (True, ''screenshot_tool_detected'') else st);
          st = (if altKey e \<and> (keyCode e = 44 \<or> key e = ''PrintScreen'')
                then (True, ''screenshot_attempt'') else st);
          st = (if metaKey e \<and> shiftKey e \<and> keyCode e \<in> set [51, 52, 53, 54]
                then (True, ''screenshot_attempt'') else st);
          st = (if (ctrlKey e \<or> metaKey e) \<and> keyCode e \<in> set [67, 88, 86, 65]
                then (True, ''copy_attempt'') else st);
          st = (if keyCode e = 123
                   \<or> (ctrlKey e \<and> shiftKey e \<and> keyCode e \<in> set [73, 74])
                   \<or> (ctrlKey e \<and> keyCode e = 85)
                then (True, ''devtools_detected'') else st)
      in case st of
           (blocked, violationType) \<Rightarrow>
             if blocked
             then \<lparr>prevented = True, stopped = True, warned = Some (violationAlert violationType),
                   logged = Some (violationType,
                     ''Key combination: '' @ (if key e \<noteq> [] then key e else string_of_nat (keyCode e)))\<rparr>
             else passed)"

text \<open>
  The key-combination table of the specification, row by row, as a relation between an
  event and the documented kind. Keys are identified by their key codes
  (F12 123, I 73, J 74, C 67, U 85, S 83, P 80, X 88, A 65, PrintScreen 44, 3 to 6 51 to 54).
\<close>

datatype ViolationKind =
  DevToolsOpened | ViewSourceAttempt | SaveAttempt | PrintAttempt | CopyAttempt | CutAttempt
  | SelectAllAttempt | Screenshot | SnippingToolAttempt

definition tableRow :: "keyEvent \<Rightarrow> ViolationKind \<Rightarrow> bool" where
  "tableRow e k =
     ((k = DevToolsOpened \<and> keyCode e = 123)
      \<or> (k = DevToolsOpened \<and> ctrlKey e \<and> shiftKey e \<and> keyCode e \<in> set [73, 74, 67])
      \<or> (k = ViewSourceAttempt \<and> ctrlKey e \<and> keyCode e = 85)
      \<or> (k = SaveAttempt \<and> ctrlKey e \<and> keyCode e = 83)
      \<or> (k = PrintAttempt \<and> ctrlKey e \<and> keyCode e = 80)
      \<or> (k = CopyAttempt \<and> (ctrlKey e \<or> metaKey e) \<and> \<not> shiftKey e \<and> keyCode e = 67)
      \<or> (k = CutAttempt \<and> (ctrlKey e \<or> metaKey e) \<and> keyCode e = 88)
      \<or> (k = SelectAllAttempt \<and> (ctrlKey e \<or> metaKey e) \<and> keyCode e = 65)
      \<or> (k = Screenshot \<and> keyCode e = 44)
      \<or> (k = SnippingToolAttempt \<and> metaKey e \<and> shiftKey e \<and> keyCode e = 83)
      \<or> (k = Screenshot \<and> metaKey e \<and> shiftKey e \<and> keyCode e \<in> set [51, 52, 53, 54]))"

text \<open>
  A browser reports \<^verbatim>\<open>key\<close> and \<^verbatim>\<open>keyCode\<close> of the same physical key: wherever
  the strict handler recognises a key by its name, the event carries that key's code.
\<close>

definition wellFormed :: "keyEvent \<Rightarrow> bool" where
  "wellFormed e =
     list_all (\<lambda>(name, c). key e = name \<longrightarrow> keyCode e = c)
       [(''F12'', 123), (''I'', 73), (''J'', 74), (''C'', 67), (''c'', 67), (''u'', 85),
        (''s'', 83), (''p'', 80), (''x'', 88), (''a'', 65), (''PrintScreen'', 44)]"


section \<open>Session policy of customer-security-core\<close>

datatype json = JStr string | JNum int | JObj "(string \<times> json) list"

record config =
  sessionTimeout :: int
  idleTimeout :: int
  warningTime :: int
  maxViolations :: nat

definition coreConfig :: config where
  "coreConfig = \<lparr>sessionTimeout = 15 * 60 * 1000, idleTimeout = 5 * 60 * 1000,
                  warningTime = 2 * 60 * 1000, maxViolations = 5\<rparr>"

text \<open>What the page did, in order: a request to the security log (event type and
  details), a violation warning showing a count, the termination notice, the idle
  warning, a navigation.\<close>

datatype effect =
  Logged string "(string \<times> json) list"
  | ViolationWarning nat
  | SecurityBlock
  | TimeoutWarning
  | Navigate string

text \<open>
  \<^verbatim>\<open>CustomerSecurity.state\<close> (the fields these functions touch) and the page around it:
  the count shown by the element \<^verbatim>\<open>#violation-warning\<close> if present, whether
  \<^verbatim>\<open>#timeout-warning\<close> is present, whether \<^verbatim>\<open>document.body\<close> has been replaced by the
  termination notice, and \<^verbatim>\<open>window.location.href\<close> once it has been assigned.
\<close>

record portal =
  violations :: nat
  lastActivity :: int
  sessionStart :: int
  warningShown :: bool
  violationBanner :: "nat option"
  timeoutBanner :: bool
  terminated :: bool
  location :: "string option"
  effects :: "effect list"

definition logSecurityEvent :: "string \<Rightarrow> (string \<times> json) list \<Rightarrow> portal \<Rightarrow> portal" where
  "logSecurityEvent eventType details w = w\<lparr>effects := effects w @ (Logged eventType details # [])\<rparr>"

text \<open>\<^verbatim>\<open>showViolationWarning\<close> removes the element with the warning's id, if any, and
  appends a new one.\<close>

definition showViolationWarning :: "nat \<Rightarrow> portal \<Rightarrow> portal" where
  "showViolationWarning count w =
     w\<lparr>violationBanner := Some count, effects := effects w @ (ViolationWarning count # [])\<rparr>"

text \<open>\<^verbatim>\<open>showSecurityBlock\<close> assigns \<^verbatim>\<open>document.body.innerHTML\<close>: every element that
  was appended to the body goes with the old content.\<close>

definition showSecurityBlock :: "portal \<Rightarrow> portal" where
  "showSecurityBlock w =
     (let w1 = logSecurityEvent ''session_terminated'' ((''reason'', JStr ''max_violations'') # []) w
      in w1\<lparr>terminated := True, violationBanner := None, timeoutBanner := False,
             effects := effects w1 @ (SecurityBlock # [])\<rparr>)"

definition incrementViolation :: "config \<Rightarrow> string \<Rightarrow> portal \<Rightarrow> portal" where
  "incrementViolation cfg ty w =
     (let w1 = w\<lparr>violations := violations w + 1\<rparr>;
          w2 = logSecurityEvent ''security_violation''
                 ((''type'', JStr ty) # (''count'', JNum (int (violations w1))) # []) w1
      in if maxViolations cfg \<le> violations w2 then showSecurityBlock w2
         else if 3 \<le> violations w2 then showViolationWarning (violations w2) w2
         else w2)"

text \<open>A sequence of violations, first to last.\<close>

definition violate :: "config \<Rightarrow> string list \<Rightarrow> portal \<Rightarrow> portal" where
  "violate cfg tys w = foldl (\<lambda>w ty. incrementViolation cfg ty w) w tys"

text \<open>The state at page load, at clock reading \<open>t\<close>.\<close>

definition loaded :: "int \<Rightarrow> portal" where
  "loaded t = \<lparr>violations = 0, lastActivity = t, sessionStart = t, warningShown = False,
               violationBanner = None, timeoutBanner = False, terminated = False,
               location = None, effects = []\<rparr>"

definition isWarning :: "effect \<Rightarrow> bool" where
  "isWarning x = (case x of ViolationWarning _ \<Rightarrow> True | _ \<Rightarrow> False)"

definition isLog :: "effect \<Rightarrow> bool" where
  "isLog x = (case x of Logged _ _ \<Rightarrow> True | _ \<Rightarrow> False)"

definition isBlock :: "effect \<Rightarrow> bool" where
  "isBlock x = (case x of SecurityBlock \<Rightarrow> True | _ \<Rightarrow> False)"

definition updateActivity :: "int \<Rightarrow> portal \<Rightarrow> portal" where
  "updateActivity now w = w\<lparr>lastActivity := now, warningShown := False\<rparr>"

definition navigate :: "string \<Rightarrow> portal \<Rightarrow> portal" where
  "navigate url w = w\<lparr>location := Some url, effects := effects w @ (Navigate url # [])\<rparr>"

definition showTimeoutWarning :: "portal \<Rightarrow> portal" where
  "showTimeoutWarning w = w\<lparr>timeoutBanner := True, effects := effects w @ (TimeoutWarning # [])\<rparr>"

text \<open>\<^verbatim>\<open>checkSession\<close> of customer-security-core, run every second with the clock
  reading \<open>now\<close>.\<close>

definition checkSession :: "config \<Rightarrow> int \<Rightarrow> portal \<Rightarrow> portal" where
  "checkSession cfg now w =
     (let idleTime = now - lastActivity w;
          sessionTime = now - sessionStart w
      in if idleTimeout cfg < idleTime
         then navigate ''/accounts/signin/?timeout=idle''
                (logSecurityEvent ''session_timeout'' ((''reason'', JStr ''idle'') # []) w)
         else if sessionTimeout cfg < sessionTime
         then navigate ''/accounts/signin/?timeout=expired''
                (logSecurityEvent ''session_timeout'' ((''reason'', JStr ''max_duration'') # []) w)
         else if idleTimeout cfg - warningTime cfg < idleTime \<and> \<not> warningShown w
         then (showTimeoutWarning w)\<lparr>warningShown := True\<rparr>
         else w)"

text \<open>\<^verbatim>\<open>checkSession\<close> of customer-security-final: the same tests, no log request, and
  the sign-in address taken from \<^verbatim>\<open>BankingSecurity.config.redirectUrl\<close>.\<close>

definition finalConfig :: config where
  "finalConfig = \<lparr>sessionTimeout = 15 * 60 * 1000, idleTimeout = 5 * 60 * 1000,
                   warningTime = 2 * 60 * 1000, maxViolations = 3\<rparr>"

definition finalRedirectUrl :: string where
  "finalRedirectUrl = ''/auth/signin/''"

definition checkSessionFinal :: "config \<Rightarrow> string \<Rightarrow> int \<Rightarrow> portal \<Rightarrow> portal" where
  "checkSessionFinal cfg redirectUrl now w =
     (let idleTime = now - lastActivity w;
          sessionTime = now - sessionStart w
      in if idleTimeout cfg < idleTime then navigate (redirectUrl @ ''?timeout=idle'') w
         else if sessionTimeout cfg < sessionTime then navigate (redirectUrl @ ''?timeout=expired'') w
         else if idleTimeout cfg - warningTime cfg < idleTime \<and> \<not> warningShown w
         then (showTimeoutWarning w)\<lparr>warningShown := True\<rparr>
         else w)"


section \<open>Notification socket (class NotificationWebSocket)\<close>

datatype readyState = CONNECTING | OPEN | CLOSING | CLOSED

text \<open>A \<^verbatim>\<open>WebSocket\<close> object: its state and the frames handed to \<^verbatim>\<open>send\<close>, in
  order. A frame is the object given to \<^verbatim>\<open>JSON.stringify\<close>.\<close>

record websocket =
  wsState :: readyState
  framesSent :: "json list"

record notification =
  n_id :: int
  n_title :: string
  n_message :: string
  n_link :: string

text \<open>The element \<^verbatim>\<open>#adminNotifBadge\<close>: its text, and whether it is displayed (class
  \<^verbatim>\<open>show\<close>, \<^verbatim>\<open>display: block\<close>) or hidden.\<close>

record badgeElement =
  textContent :: string
  displayed :: bool

text \<open>
  The object's fields, then the page around it: the badge if the page has one, whether
  the dropdown \<^verbatim>\<open>#adminNotifMenu\<close> is open, whether native notifications are permitted,
  the toasts appended to \<^verbatim>\<open>#ws-toast-container\<close>, the native notifications raised, the
  connection toasts, the reconnect buttons on the page, whether the page has the element
  \<^verbatim>\<open>#adminNotifList\<close> and the list last rendered into it, and the delays of the
  reconnect timers armed and not yet fired.
\<close>

record client =
  ws :: "websocket option"
  reconnectAttempts :: nat
  maxReconnectAttempts :: nat
  reconnectDelay :: nat
  heartbeatInterval :: bool
  isConnecting :: bool
  badge :: "badgeElement option"
  menuOpen :: bool
  permissionGranted :: bool
  toasts :: "notification list"
  nativeNotifications :: "notification list"
  connectionToasts :: "string list"
  reconnectButtons :: nat
  listPresent :: bool
  renderedList :: "notification list option"
  timers :: "nat list"

definition isOpen :: "client \<Rightarrow> bool" where
  "isOpen c = (case ws c of None \<Rightarrow> False | Some w \<Rightarrow> wsState w = OPEN)"

definition connect :: "client \<Rightarrow> client" where
  "connect c =
     (if isConnecting c \<or> isOpen c then c
      else c\<lparr>isConnecting := True, ws := Some \<lparr>wsState = CONNECTING, framesSent = []\<rparr>\<rparr>)"

text \<open>The constructor, on a page with the given badge and with the list element.\<close>

definition newClient :: "badgeElement option \<Rightarrow> client" where
  "newClient b =
     connect \<lparr>ws = None, reconnectAttempts = 0, maxReconnectAttempts = 5, reconnectDelay = 3000,
              heartbeatInterval = False, isConnecting = False, badge = b, menuOpen = False,
              permissionGranted = False, toasts = [], nativeNotifications = [],
              connectionToasts = [], reconnectButtons = 0, listPresent = True,
              renderedList = None, timers = []\<rparr>"

definition showConnectionToast :: "string \<Rightarrow> client \<Rightarrow> client" where
  "showConnectionToast msg c = c\<lparr>connectionToasts := connectionToasts c @ (msg # [])\<rparr>"


text \<open>The handlers installed by \<^verbatim>\<open>connect\<close>. (\<^verbatim>\<open>updateConnectionStatus\<close> recolours an
  indicator and is left out.)\<close>

definition onopen :: "client \<Rightarrow> client" where
  "onopen c =
     showConnectionToast ''Connected''
       (c\<lparr>isConnecting := False, reconnectAttempts := 0, heartbeatInterval := True\<rparr>)"

definition onerror :: "client \<Rightarrow> client" where
  "onerror c = c\<lparr>isConnecting := False\<rparr>"


text \<open>What the browser does: the socket changes state, then the handler runs; a timer
  fires and calls \<^verbatim>\<open>connect\<close>; the user clicks the reconnect button.\<close>

definition setState :: "readyState \<Rightarrow> client \<Rightarrow> client" where
  "setState st c = c\<lparr>ws := map_option (\<lambda>w. w\<lparr>wsState := st\<rparr>) (ws c)\<rparr>"

definition socketOpened :: "client \<Rightarrow> client" where
  "socketOpened c = onopen (setState OPEN c)"





subsection \<open>Outbound actions\<close>

definition send :: "json \<Rightarrow> client \<Rightarrow> client" where
  "send frame c = c\<lparr>ws := map_option (\<lambda>w. w\<lparr>framesSent := framesSent w @ (frame # [])\<rparr>) (ws c)\<rparr>"

definition markAsRead :: "json \<Rightarrow> client \<Rightarrow> client" where
  "markAsRead notificationId c =
     (if isOpen c
      then send (JObj ((''action'', JStr ''mark_read'') # (''notification_id'', notificationId) # [])) c
      else c)"

definition markAllAsRead :: "client \<Rightarrow> client" where
  "markAllAsRead c =
     (if isOpen c then send (JObj ((''action'', JStr ''mark_all_read'') # [])) c else c)"

definition loadNotifications :: "int \<Rightarrow> client \<Rightarrow> client" where
  "loadNotifications limit c =
     (if isOpen c
      then send (JObj ((''action'', JStr ''get_notifications'') # (''limit'', JNum limit) # [])) c
      else c)"

text \<open>One firing of the 30 second heartbeat interval.\<close>

definition heartbeat :: "client \<Rightarrow> client" where
  "heartbeat c =
     (if heartbeatInterval c \<and> isOpen c then send (JObj ((''action'', JStr ''ping'') # [])) c else c)"

definition sentFrames :: "client \<Rightarrow> json list" where
  "sentFrames c = (case ws c of None \<Rightarrow> [] | Some w \<Rightarrow> framesSent w)"

subsection \<open>Inbound frames and the badge\<close>

text \<open>
  \<^verbatim>\<open>parseInt\<close> with no radix: leading white space is skipped, a sign is read, a
  \<^verbatim>\<open>0x\<close> prefix selects base 16, and the longest run of digits of the base is the
  value; no digit at all is \<^verbatim>\<open>NaN\<close> (\<open>None\<close>). A character of the model is a code
  unit below 256; of these, JavaScript's white space is 9 to 13, 32 and 160 (the no-break
  space).
\<close>

definition isWhite :: "char \<Rightarrow> bool" where
  "isWhite ch = ((of_char ch :: nat) \<in> set [9, 10, 11, 12, 13, 32, 160])"

text \<open>The characters \<^verbatim>\<open>0\<close> to \<^verbatim>\<open>9\<close>.\<close>

definition decimal :: "char \<Rightarrow> bool" where
  "decimal ch = (48 \<le> (of_char ch :: nat) \<and> (of_char ch :: nat) \<le> 57)"

definition digitOf :: "char \<Rightarrow> nat option" where
  "digitOf ch =
     (let k = (of_char ch :: nat)
      in if 48 \<le> k \<and> k \<le> 57 then Some (k - 48)
         else if 97 \<le> k \<and> k \<le> 122 then Some (k - 87)
         else if 65 \<le> k \<and> k \<le> 90 then Some (k - 55)
         else None)"

fun parseDigits :: "nat \<Rightarrow> string \<Rightarrow> nat option \<Rightarrow> nat option" where
  "parseDigits radix [] acc = acc"
| "parseDigits radix (ch # rest) acc =
     (case digitOf ch of
        None \<Rightarrow> acc
      | Some d \<Rightarrow>
          if d < radix
          then parseDigits radix rest (Some ((case acc of None \<Rightarrow> 0 | Some a \<Rightarrow> a) * radix + d))
          else acc)"

definition parseInt :: "string \<Rightarrow> int option" where
  "parseInt s =
     (let s1 = dropWhile isWhite s;
          negative = (take 1 s1 = ''-'');
          s2 = (if take 1 s1 = ''-'' \<or> take 1 s1 = ''+'' then drop 1 s1 else s1);
          hex = (take 2 s2 = ''0x'' \<or> take 2 s2 = ''0X'');
          digits = (if hex then parseDigits 16 (drop 2 s2) None else parseDigits 10 s2 None)
      in map_option (\<lambda>n. if negative then - int n else int n) digits)"

text \<open>\<^verbatim>\<open>updateUnreadBadge(count)\<close>; a count that is \<^verbatim>\<open>NaN\<close> is \<open>None\<close>. The hidden badge
  keeps its text.\<close>

definition updateUnreadBadge :: "int option \<Rightarrow> client \<Rightarrow> client" where
  "updateUnreadBadge count c =
     (case badge c of
        None \<Rightarrow> c
      | Some b \<Rightarrow>
          (case count of
             None \<Rightarrow> c\<lparr>badge := Some (b\<lparr>displayed := False\<rparr>)\<rparr>
           | Some n \<Rightarrow>
               if 0 < n
               then c\<lparr>badge := Some (b\<lparr>textContent := (if 99 < n then ''99+'' else string_of_nat (nat n)),
                                        displayed := True\<rparr>)\<rparr>
               else c\<lparr>badge := Some (b\<lparr>displayed := False\<rparr>)\<rparr>))"

definition showBrowserNotification :: "notification \<Rightarrow> client \<Rightarrow> client" where
  "showBrowserNotification n c =
     (if permissionGranted c then c\<lparr>nativeNotifications := nativeNotifications c @ (n # [])\<rparr> else c)"

definition showNotificationToast :: "notification \<Rightarrow> client \<Rightarrow> client" where
  "showNotificationToast n c = c\<lparr>toasts := toasts c @ (n # [])\<rparr>"

text \<open>\<^verbatim>\<open>handleNewNotification\<close>: the new count is
  \<^verbatim>\<open>parseInt(badge.textContent || '0') + 1\<close>, computed only when the page has a badge.
  (The notification sound changes nothing of the page and is left out.)\<close>

definition handleNewNotification :: "notification \<Rightarrow> client \<Rightarrow> client" where
  "handleNewNotification n c =
     (let c1 = (case badge c of
                  None \<Rightarrow> c
                | Some b \<Rightarrow>
                    (let currentCount = parseInt (if textContent b = [] then ''0'' else textContent b)
                     in updateUnreadBadge (map_option (\<lambda>k. k + 1) currentCount) c));
          c2 = showBrowserNotification n c1;
          c3 = showNotificationToast n c2
      in if menuOpen c3 then loadNotifications 10 c3 else c3)"

text \<open>\<^verbatim>\<open>renderNotifications\<close> returns at once on a page without the list element.\<close>

definition renderNotifications :: "notification list \<Rightarrow> client \<Rightarrow> client" where
  "renderNotifications ns c = (if \<not> listPresent c then c else c\<lparr>renderedList := Some ns\<rparr>)"

datatype inbound =
  ConnectionEstablished string json "string list" int
  | NewNotification notification
  | UnreadCount int
  | MarkReadResponse json
  | MarkAllReadResponse int
  | NotificationsList "notification list"
  | Pong
  | UnknownType string

definition handleMessage :: "inbound \<Rightarrow> client \<Rightarrow> client" where
  "handleMessage frame c =
     (case frame of
        ConnectionEstablished user_type user_id groups unread_count \<Rightarrow>
          updateUnreadBadge (Some unread_count) c
      | NewNotification n \<Rightarrow> handleNewNotification n c
      | UnreadCount n \<Rightarrow> updateUnreadBadge (Some n) c
      | MarkReadResponse notification_id \<Rightarrow> c
      | MarkAllReadResponse n \<Rightarrow> updateUnreadBadge (Some 0) c
      | NotificationsList ns \<Rightarrow> renderNotifications ns c
      | Pong \<Rightarrow> c
      | UnknownType t \<Rightarrow> c)"

text \<open>The count a reader of the page sees on the badge: nothing without a badge, zero
  when it is hidden, else the number its text starts with.\<close>

definition badgeCount :: "client \<Rightarrow> int option" where
  "badgeCount c =
     (case badge c of
        None \<Rightarrow> None
      | Some b \<Rightarrow> if displayed b then parseInt (textContent b) else Some 0)"



section \<open>Properties of the token lookup\<close>

lemma cookieToken_example: "cookieToken ''a=1; csrftoken=C; b=2'' None = Some ''C''"
  by (simp add: cookieToken_def js_split_def startsWith_def js_index_def)

text \<open>
  C7. \<^verbatim>\<open>getCSRFToken\<close> returns the meta tag's content when that is a non-empty string;
  otherwise the form field's value when that is a non-empty string; the cookie is read
  only when both are absent (\<^verbatim>\<open>undefined\<close> or empty).
\<close>

theorem getCSRFToken_priority:
  "getCSRFToken d =
     (if \<not> falsy (metaContent d) then metaContent d
      else if \<not> falsy (formValue d) then formValue d
      else cookieToken (cookie d) (formValue d))"
  by (simp add: getCSRFToken_def Let_def)

theorem getCSRFToken_priority_witness:
  "getCSRFToken \<lparr>metaContent = Some ''M'', formValue = Some ''F'', cookie = ''a=1; csrftoken=C; b=2'', href = ''/''\<rparr> = Some ''M''
   \<and> getCSRFToken \<lparr>metaContent = None, formValue = Some ''F'', cookie = ''a=1; csrftoken=C; b=2'', href = ''/''\<rparr> = Some ''F''
   \<and> getCSRFToken \<lparr>metaContent = Some [], formValue = None, cookie = ''a=1; csrftoken=C; b=2'', href = ''/''\<rparr> = Some ''C''"
  using getCSRFToken_priority [of "\<lparr>metaContent = Some ''M'', formValue = Some ''F'', cookie = ''a=1; csrftoken=C; b=2'', href = ''/''\<rparr>"]
    getCSRFToken_priority [of "\<lparr>metaContent = None, formValue = Some ''F'', cookie = ''a=1; csrftoken=C; b=2'', href = ''/''\<rparr>"]
    getCSRFToken_priority [of "\<lparr>metaContent = Some [], formValue = None, cookie = ''a=1; csrftoken=C; b=2'', href = ''/''\<rparr>"]
  by (simp add: falsy_def cookieToken_example)

section \<open>Properties of the violation log queue\<close>


lemma processQueue_Nil: "logQueue s = [] \<Longrightarrow> processQueue d now s = (s\<lparr>isLogging := False\<rparr>, Idle)"
  by (simp add: processQueue_def)

lemma processQueue_queue: "logQueue (fst (processQueue d now s)) = tl (logQueue s)"
  by (simp add: processQueue_def Let_def split: list.splits option.splits)



lemma processQueue_no_token:
  "falsy (getCSRFToken d) \<Longrightarrow> snd (processQueue d now s) \<noteq> Sent r"
  by (auto simp add: processQueue_def Let_def falsy_def split: list.splits option.splits if_splits)







lemma deliveries_append: "deliveries (xs @ ys) = deliveries xs @ deliveries ys"
  by (induction xs rule: deliveries.induct) auto









text \<open>
  C2, as the code has it. A cycle that finds no token sends no request; the record it
  was processing has already been taken off the queue (\<^verbatim>\<open>shift\<close> precedes the token
  lookup), so the queue afterwards is the tail of the queue before, and unless the cycle
  was debounced the attempt is time-stamped and reported as a missing token.
\<close>

theorem token_missing_skips_record:
  assumes "falsy (getCSRFToken d)"
  shows "(\<forall>r. snd (processQueue d now s) \<noteq> Sent r)
       \<and> logQueue (fst (processQueue d now s)) = tl (logQueue s)
       \<and> (logQueue s \<noteq> [] \<and> \<not> debounced now (lastLogTime s) \<longrightarrow>
            processQueue d now s =
              (s\<lparr>isLogging := True, logQueue := tl (logQueue s), lastLogTime := Some now\<rparr>, TokenMissing))"
proof -
  have a: "\<forall>r. snd (processQueue d now s) \<noteq> Sent r"
    using assms by (simp add: processQueue_no_token)
  have b: "logQueue (fst (processQueue d now s)) = tl (logQueue s)"
    by (rule processQueue_queue)
  have c: "logQueue s \<noteq> [] \<and> \<not> debounced now (lastLogTime s) \<longrightarrow>
            processQueue d now s =
              (s\<lparr>isLogging := True, logQueue := tl (logQueue s), lastLogTime := Some now\<rparr>, TokenMissing)"
    using assms by (cases "logQueue s") (auto simp add: processQueue_def Let_def falsy_def split: option.splits)
  from a b c show ?thesis by blast
qed

theorem token_missing_skips_record_witness:
  "(\<forall>r. snd (processQueue \<lparr>metaContent = None, formValue = Some [], cookie = ''sessionid=abc'', href = ''/customer/''\<rparr> 1000
        \<lparr>logQueue = \<lparr>itype = ''copy_blocked'', idescription = ''Copy attempt blocked'', itime = 900\<rparr> # [],
          isLogging = True, lastLogTime = None\<rparr>) \<noteq> Sent r)
   \<and> logQueue (fst (processQueue \<lparr>metaContent = None, formValue = Some [], cookie = ''sessionid=abc'', href = ''/customer/''\<rparr> 1000
        \<lparr>logQueue = \<lparr>itype = ''copy_blocked'', idescription = ''Copy attempt blocked'', itime = 900\<rparr> # [],
          isLogging = True, lastLogTime = None\<rparr>)) = []
   \<and> snd (processQueue \<lparr>metaContent = None, formValue = Some [], cookie = ''sessionid=abc'', href = ''/customer/''\<rparr> 1000
        \<lparr>logQueue = \<lparr>itype = ''copy_blocked'', idescription = ''Copy attempt blocked'', itime = 900\<rparr> # [],
          isLogging = True, lastLogTime = None\<rparr>) = TokenMissing"
proof -
  let ?page = "\<lparr>metaContent = None, formValue = Some [], cookie = ''sessionid=abc'', href = ''/customer/''\<rparr>"
  let ?q = "\<lparr>logQueue = \<lparr>itype = ''copy_blocked'', idescription = ''Copy attempt blocked'', itime = 900\<rparr> # [],
          isLogging = True, lastLogTime = None\<rparr>"
  have h: "falsy (getCSRFToken ?page)"
    by (simp add: getCSRFToken_def cookieToken_def js_split_def startsWith_def falsy_def Let_def)
  have g: "logQueue ?q \<noteq> [] \<and> \<not> debounced 1000 (lastLogTime ?q)"
    by (simp add: debounced_def)
  from token_missing_skips_record [OF h, of 1000 ?q] g show ?thesis by simp
qed

text \<open>
  With no token on the page and two records queued, the cycle leaves the second record
  at the head: the first is gone and is not retried.
\<close>

theorem token_missing_drops_head:
  "getCSRFToken \<lparr>metaContent = None, formValue = None, cookie = ''sessionid=abc'', href = ''/customer/''\<rparr> = None
   \<and> processQueue \<lparr>metaContent = None, formValue = None, cookie = ''sessionid=abc'', href = ''/customer/''\<rparr> 1000
       \<lparr>logQueue = [\<lparr>itype = ''copy_blocked'', idescription = ''Copy attempt blocked'', itime = 900\<rparr>,
                    \<lparr>itype = ''cut_blocked'', idescription = ''Cut attempt blocked'', itime = 950\<rparr>],
         isLogging = True, lastLogTime = None\<rparr>
     = (\<lparr>logQueue = [\<lparr>itype = ''cut_blocked'', idescription = ''Cut attempt blocked'', itime = 950\<rparr>],
         isLogging = True, lastLogTime = Some 1000\<rparr>, TokenMissing)"
  by (simp add: processQueue_def getCSRFToken_def cookieToken_def js_split_def startsWith_def falsy_def debounced_def Let_def)


section \<open>Properties of the keyboard handlers\<close>


lemma wellFormed_iff:
  "wellFormed e \<longleftrightarrow>
     (key e = ''F12'' \<longrightarrow> keyCode e = 123) \<and> (key e = ''I'' \<longrightarrow> keyCode e = 73)
     \<and> (key e = ''J'' \<longrightarrow> keyCode e = 74) \<and> (key e = ''C'' \<longrightarrow> keyCode e = 67)
     \<and> (key e = ''c'' \<longrightarrow> keyCode e = 67) \<and> (key e = ''u'' \<longrightarrow> keyCode e = 85)
     \<and> (key e = ''s'' \<longrightarrow> keyCode e = 83) \<and> (key e = ''p'' \<longrightarrow> keyCode e = 80)
     \<and> (key e = ''x'' \<longrightarrow> keyCode e = 88) \<and> (key e = ''a'' \<longrightarrow> keyCode e = 65)
     \<and> (key e = ''PrintScreen'' \<longrightarrow> keyCode e = 44)"
  by (simp add: wellFormed_def)

lemma final_devtools:
  "keyCode e = 123 \<or> (ctrlKey e \<and> shiftKey e \<and> (keyCode e = 73 \<or> keyCode e = 74)) \<or> (ctrlKey e \<and> keyCode e = 85)
     \<Longrightarrow> prevented (finalKeydown e) \<and> stopped (finalKeydown e)
         \<and> map_option fst (logged (finalKeydown e)) = Some ''devtools_detected''"
  by (auto simp add: finalKeydown_def Let_def)

lemma final_copy:
  "(ctrlKey e \<or> metaKey e) \<and> (keyCode e = 67 \<or> keyCode e = 88 \<or> keyCode e = 65)
     \<Longrightarrow> prevented (finalKeydown e) \<and> stopped (finalKeydown e)
         \<and> map_option fst (logged (finalKeydown e)) = Some ''copy_attempt''"
  by (auto simp add: finalKeydown_def Let_def)

lemma final_screenshot:
  "keyCode e = 44 \<or> (metaKey e \<and> shiftKey e \<and> keyCode e \<in> {51, 52, 53, 54})
     \<Longrightarrow> prevented (finalKeydown e) \<and> stopped (finalKeydown e)
         \<and> map_option fst (logged (finalKeydown e)) = Some ''screenshot_attempt''"
  by (auto simp add: finalKeydown_def Let_def)

lemma strict_devtools:
  assumes "wellFormed e"
  shows "(keyCode e = 123 \<longrightarrow>
            strictKeydown e = blockWith ''Developer tools are disabled'' (Some (''f12_blocked'', ''F12 pressed'')))
       \<and> (ctrlKey e \<and> shiftKey e \<and> keyCode e = 73 \<longrightarrow>
            strictKeydown e = blockWith ''Inspect element is disabled'' (Some (''inspect_blocked'', ''Ctrl+Shift+I pressed'')))
       \<and> (ctrlKey e \<and> shiftKey e \<and> keyCode e = 74 \<longrightarrow>
            strictKeydown e = blockWith ''Console is disabled'' (Some (''console_blocked'', ''Ctrl+Shift+J pressed'')))
       \<and> (ctrlKey e \<and> shiftKey e \<and> keyCode e = 67 \<longrightarrow>
            strictKeydown e = blockWith ''Inspect is disabled'' (Some (''inspect_blocked'', ''Ctrl+Shift+C pressed'')))"
  using assms unfolding wellFormed_iff strictKeydown_def by auto

lemma strict_page:
  assumes "wellFormed e"
  shows "(ctrlKey e \<and> keyCode e = 85 \<longrightarrow>
            strictKeydown e = blockWith ''View source is disabled'' (Some (''view_source_blocked'', ''Ctrl+U pressed'')))
       \<and> (ctrlKey e \<and> keyCode e = 83 \<longrightarrow>
            strictKeydown e = blockWith ''Save is disabled'' (Some (''save_blocked'', ''Ctrl+S pressed'')))
       \<and> (ctrlKey e \<and> keyCode e = 80 \<longrightarrow>
            strictKeydown e = blockWith ''Print is disabled'' (Some (''print_blocked'', ''Ctrl+P pressed'')))"
  using assms unfolding wellFormed_iff strictKeydown_def by auto

lemma strict_clipboard:
  assumes "wellFormed e" and "\<not> isExemptedElement (target e)"
  shows "(ctrlKey e \<and> \<not> shiftKey e \<and> keyCode e = 67 \<longrightarrow>
            strictKeydown e = blockWith ''Copy is disabled'' (Some (''ctrl_c_blocked'', ''Ctrl+C pressed'')))
       \<and> (ctrlKey e \<and> keyCode e = 88 \<longrightarrow>
            strictKeydown e = blockWith ''Cut is disabled'' (Some (''ctrl_x_blocked'', ''Ctrl+X pressed'')))
       \<and> (ctrlKey e \<and> keyCode e = 65 \<longrightarrow>
            strictKeydown e = blockWith ''Select all is disabled'' None)"
  using assms unfolding wellFormed_iff strictKeydown_def by auto



lemma tableRow_cases:
  assumes "tableRow e k"
  shows "(k = DevToolsOpened \<and> (keyCode e = 123 \<or> (ctrlKey e \<and> shiftKey e \<and> (keyCode e = 73 \<or> keyCode e = 74 \<or> keyCode e = 67))))
      \<or> (k = ViewSourceAttempt \<and> ctrlKey e \<and> keyCode e = 85)
      \<or> (k = SaveAttempt \<and> ctrlKey e \<and> keyCode e = 83)
      \<or> (k = PrintAttempt \<and> ctrlKey e \<and> keyCode e = 80)
      \<or> (k = CopyAttempt \<and> (ctrlKey e \<or> metaKey e) \<and> \<not> shiftKey e \<and> keyCode e = 67)
      \<or> (k = CutAttempt \<and> (ctrlKey e \<or> metaKey e) \<and> keyCode e = 88)
      \<or> (k = SelectAllAttempt \<and> (ctrlKey e \<or> metaKey e) \<and> keyCode e = 65)
      \<or> (k = Screenshot \<and> (keyCode e = 44 \<or> (metaKey e \<and> shiftKey e \<and> keyCode e \<in> {51, 52, 53, 54})))
      \<or> (k = SnippingToolAttempt \<and> metaKey e \<and> shiftKey e \<and> keyCode e = 83)"
  using assms unfolding tableRow_def by (elim disjE conjE) simp_all

lemma final_rows:
  assumes "tableRow e k" and "k \<noteq> SaveAttempt" and "k \<noteq> PrintAttempt" and "k \<noteq> SnippingToolAttempt"
  shows "prevented (finalKeydown e) \<and> stopped (finalKeydown e)
       \<and> map_option fst (logged (finalKeydown e))
             \<in> {Some ''devtools_detected'', Some ''copy_attempt'', Some ''screenshot_attempt''}"
proof -
  from tableRow_cases [OF assms(1)] assms(2-4) have
    "(keyCode e = 123 \<or> (ctrlKey e \<and> shiftKey e \<and> (keyCode e = 73 \<or> keyCode e = 74)) \<or> (ctrlKey e \<and> keyCode e = 85))
     \<or> ((ctrlKey e \<or> metaKey e) \<and> (keyCode e = 67 \<or> keyCode e = 88 \<or> keyCode e = 65))
     \<or> (keyCode e = 44 \<or> (metaKey e \<and> shiftKey e \<and> keyCode e \<in> {51, 52, 53, 54}))"
    by blast
  then consider
    (dev) "keyCode e = 123 \<or> (ctrlKey e \<and> shiftKey e \<and> (keyCode e = 73 \<or> keyCode e = 74)) \<or> (ctrlKey e \<and> keyCode e = 85)"
    | (copy) "(ctrlKey e \<or> metaKey e) \<and> (keyCode e = 67 \<or> keyCode e = 88 \<or> keyCode e = 65)"
    | (shot) "keyCode e = 44 \<or> (metaKey e \<and> shiftKey e \<and> keyCode e \<in> {51, 52, 53, 54})"
    by blast
  then show ?thesis
  proof cases
    case dev
    from final_devtools [OF dev] show ?thesis by simp
  next
    case copy
    from final_copy [OF copy] show ?thesis by simp
  next
    case shot
    from final_screenshot [OF shot] show ?thesis by simp
  qed
qed


lemma strict_rows:
  assumes "tableRow e k" and "wellFormed e" and "\<not> isExemptedElement (target e)"
    and "ctrlKey e \<or> keyCode e = 123" and "k \<noteq> Screenshot" and "k \<noteq> SnippingToolAttempt"
  shows "prevented (strictKeydown e)"
proof -
  have p: "\<And>m lg. prevented (blockWith m lg)" by (simp add: blockWith_def)
  from tableRow_cases [OF assms(1)] assms(4-6) consider
    (dev) "keyCode e = 123 \<or> (ctrlKey e \<and> shiftKey e \<and> (keyCode e = 73 \<or> keyCode e = 74 \<or> keyCode e = 67))"
    | (page) "ctrlKey e \<and> (keyCode e = 85 \<or> keyCode e = 83 \<or> keyCode e = 80)"
    | (clip) "(ctrlKey e \<and> \<not> shiftKey e \<and> keyCode e = 67) \<or> (ctrlKey e \<and> (keyCode e = 88 \<or> keyCode e = 65))"
    by blast
  then show ?thesis
  proof cases
    case dev
    with strict_devtools [OF assms(2)] p show ?thesis by metis
  next
    case page
    with strict_page [OF assms(2)] p show ?thesis by metis
  next
    case clip
    with strict_clipboard [OF assms(2,3)] p show ?thesis by metis
  qed
qed

text \<open>
  C3, as the code has it. The final handler prevents the default action and stops
  propagation for every event matching a row of the table other than Ctrl+S, Ctrl+P and
  Meta+Shift+S, whatever element has the focus, and logs one of three types:
  \<^verbatim>\<open>devtools_detected\<close> for F12, Ctrl+Shift+I/J and Ctrl+U, \<^verbatim>\<open>copy_attempt\<close> for
  Ctrl/Cmd+C, X and A, \<^verbatim>\<open>screenshot_attempt\<close> for PrintScreen (with or without Alt) and
  Meta+Shift+3 to 6. The strict handler prevents the default action for every well-formed
  event with Ctrl held (or F12) that matches a row other than the screenshot rows, on a
  target that is not exempt, and logs the types listed; its PrintScreen handling is on
  \<^verbatim>\<open>keyup\<close>, which logs without preventing the default action.
\<close>

theorem key_table_as_implemented:
  "(tableRow e k \<and> k \<notin> {SaveAttempt, PrintAttempt, SnippingToolAttempt} \<longrightarrow>
      prevented (finalKeydown e) \<and> stopped (finalKeydown e)
      \<and> map_option fst (logged (finalKeydown e))
            \<in> {Some ''devtools_detected'', Some ''copy_attempt'', Some ''screenshot_attempt''})
   \<and> (keyCode e = 123 \<or> (ctrlKey e \<and> shiftKey e \<and> (keyCode e = 73 \<or> keyCode e = 74)) \<or> (ctrlKey e \<and> keyCode e = 85) \<longrightarrow>
      map_option fst (logged (finalKeydown e)) = Some ''devtools_detected'')
   \<and> ((ctrlKey e \<or> metaKey e) \<and> (keyCode e = 67 \<or> keyCode e = 88 \<or> keyCode e = 65) \<longrightarrow>
      map_option fst (logged (finalKeydown e)) = Some ''copy_attempt'')
   \<and> (keyCode e = 44 \<or> (metaKey e \<and> shiftKey e \<and> keyCode e \<in> {51, 52, 53, 54}) \<longrightarrow>
      map_option fst (logged (finalKeydown e)) = Some ''screenshot_attempt'')
   \<and> (tableRow e k \<and> wellFormed e \<and> \<not> isExemptedElement (target e) \<and> (ctrlKey e \<or> keyCode e = 123)
        \<and> k \<notin> {Screenshot, SnippingToolAttempt} \<longrightarrow> prevented (strictKeydown e))
   \<and> (wellFormed e \<longrightarrow>
        (keyCode e = 123 \<longrightarrow> logged (strictKeydown e) = Some (''f12_blocked'', ''F12 pressed''))
      \<and> (ctrlKey e \<and> shiftKey e \<and> keyCode e = 73 \<longrightarrow>
            logged (strictKeydown e) = Some (''inspect_blocked'', ''Ctrl+Shift+I pressed''))
      \<and> (ctrlKey e \<and> shiftKey e \<and> keyCode e = 74 \<longrightarrow>
            logged (strictKeydown e) = Some (''console_blocked'', ''Ctrl+Shift+J pressed''))
      \<and> (ctrlKey e \<and> shiftKey e \<and> keyCode e = 67 \<longrightarrow>
            logged (strictKeydown e) = Some (''inspect_blocked'', ''Ctrl+Shift+C pressed''))
      \<and> (ctrlKey e \<and> keyCode e = 85 \<longrightarrow>
            logged (strictKeydown e) = Some (''view_source_blocked'', ''Ctrl+U pressed''))
      \<and> (ctrlKey e \<and> keyCode e = 83 \<longrightarrow>
            logged (strictKeydown e) = Some (''save_blocked'', ''Ctrl+S pressed''))
      \<and> (ctrlKey e \<and> keyCode e = 80 \<longrightarrow>
            logged (strictKeydown e) = Some (''print_blocked'', ''Ctrl+P pressed'')))
   \<and> (wellFormed e \<and> \<not> isExemptedElement (target e) \<longrightarrow>
        (ctrlKey e \<and> \<not> shiftKey e \<and> keyCode e = 67 \<longrightarrow>
            logged (strictKeydown e) = Some (''ctrl_c_blocked'', ''Ctrl+C pressed''))
      \<and> (ctrlKey e \<and> keyCode e = 88 \<longrightarrow>
            logged (strictKeydown e) = Some (''ctrl_x_blocked'', ''Ctrl+X pressed''))
      \<and> (ctrlKey e \<and> keyCode e = 65 \<longrightarrow> logged (strictKeydown e) = None))
   \<and> (keyCode e = 44 \<longrightarrow>
        \<not> prevented (strictKeyup e)
        \<and> logged (strictKeyup e) = Some (''printscreen_blocked'', ''PrintScreen pressed''))"
proof -
  have a: "tableRow e k \<and> k \<notin> {SaveAttempt, PrintAttempt, SnippingToolAttempt} \<longrightarrow>
      prevented (finalKeydown e) \<and> stopped (finalKeydown e)
      \<and> map_option fst (logged (finalKeydown e))
            \<in> {Some ''devtools_detected'', Some ''copy_attempt'', Some ''screenshot_attempt''}"
    using final_rows [of e k] by blast
  have b: "tableRow e k \<and> wellFormed e \<and> \<not> isExemptedElement (target e) \<and> (ctrlKey e \<or> keyCode e = 123)
        \<and> k \<notin> {Screenshot, SnippingToolAttempt} \<longrightarrow> prevented (strictKeydown e)"
    using strict_rows [of e k] by blast
  have c: "keyCode e = 44 \<longrightarrow>
        \<not> prevented (strictKeyup e)
        \<and> logged (strictKeyup e) = Some (''printscreen_blocked'', ''PrintScreen pressed'')"
    by (simp add: strictKeyup_def)
  show ?thesis
    apply (intro conjI)
    subgoal by (rule a)
    subgoal using final_devtools [of e] by blast
    subgoal using final_copy [of e] by blast
    subgoal using final_screenshot [of e] by blast
    subgoal by (rule b)
    subgoal
    proof
      assume wf: "wellFormed e"
      have l: "\<And>m lg. logged (blockWith m lg) = lg" by (simp add: blockWith_def)
      from strict_devtools [OF wf] strict_page [OF wf] show
       "(keyCode e = 123 \<longrightarrow> logged (strictKeydown e) = Some (''f12_blocked'', ''F12 pressed''))
      \<and> (ctrlKey e \<and> shiftKey e \<and> keyCode e = 73 \<longrightarrow>
            logged (strictKeydown e) = Some (''inspect_blocked'', ''Ctrl+Shift+I pressed''))
      \<and> (ctrlKey e \<and> shiftKey e \<and> keyCode e = 74 \<longrightarrow>
            logged (strictKeydown e) = Some (''console_blocked'', ''Ctrl+Shift+J pressed''))
      \<and> (ctrlKey e \<and> shiftKey e \<and> keyCode e = 67 \<longrightarrow>
            logged (strictKeydown e) = Some (''inspect_blocked'', ''Ctrl+Shift+C pressed''))
      \<and> (ctrlKey e \<and> keyCode e = 85 \<longrightarrow>
            logged (strictKeydown e) = Some (''view_source_blocked'', ''Ctrl+U pressed''))
      \<and> (ctrlKey e \<and> keyCode e = 83 \<longrightarrow>
            logged (strictKeydown e) = Some (''save_blocked'', ''Ctrl+S pressed''))
      \<and> (ctrlKey e \<and> keyCode e = 80 \<longrightarrow>
            logged (strictKeydown e) = Some (''print_blocked'', ''Ctrl+P pressed''))"
        using l by metis
    qed
    subgoal
    proof
      assume h: "wellFormed e \<and> \<not> isExemptedElement (target e)"
      have l: "\<And>m lg. logged (blockWith m lg) = lg" by (simp add: blockWith_def)
      from h strict_clipboard [of e] show
       "(ctrlKey e \<and> \<not> shiftKey e \<and> keyCode e = 67 \<longrightarrow>
            logged (strictKeydown e) = Some (''ctrl_c_blocked'', ''Ctrl+C pressed''))
      \<and> (ctrlKey e \<and> keyCode e = 88 \<longrightarrow>
            logged (strictKeydown e) = Some (''ctrl_x_blocked'', ''Ctrl+X pressed''))
      \<and> (ctrlKey e \<and> keyCode e = 65 \<longrightarrow> logged (strictKeydown e) = None)"
        using l by metis
    qed
    subgoal by (rule c)
    done
qed



theorem key_table_as_implemented_witness:
  "prevented (finalKeydown \<lparr>key = ''u'', keyCode = 85, ctrlKey = True, shiftKey = False, metaKey = False, altKey = False,
              target = Some \<lparr>tagName = ''DIV'', insideTawk = False\<rparr>\<rparr>)
   \<and> map_option fst (logged (finalKeydown \<lparr>key = ''u'', keyCode = 85, ctrlKey = True, shiftKey = False, metaKey = False, altKey = False,
              target = Some \<lparr>tagName = ''DIV'', insideTawk = False\<rparr>\<rparr>)) = Some ''devtools_detected''
   \<and> prevented (strictKeydown \<lparr>key = ''u'', keyCode = 85, ctrlKey = True, shiftKey = False, metaKey = False, altKey = False,
              target = Some \<lparr>tagName = ''DIV'', insideTawk = False\<rparr>\<rparr>)
   \<and> logged (strictKeydown \<lparr>key = ''u'', keyCode = 85, ctrlKey = True, shiftKey = False, metaKey = False, altKey = False,
              target = Some \<lparr>tagName = ''DIV'', insideTawk = False\<rparr>\<rparr>) = Some (''view_source_blocked'', ''Ctrl+U pressed'')"
proof -
  let ?e = "\<lparr>key = ''u'', keyCode = 85, ctrlKey = True, shiftKey = False, metaKey = False, altKey = False,
              target = Some \<lparr>tagName = ''DIV'', insideTawk = False\<rparr>\<rparr>"
  have row: "tableRow ?e ViewSourceAttempt" by (simp add: tableRow_def)
  have wf: "wellFormed ?e" by (simp add: wellFormed_def)
  have ne: "\<not> isExemptedElement (target ?e)" by (simp add: isExemptedElement_def)
  have mods: "ctrlKey ?e \<and> keyCode ?e = 85" by simp
  from key_table_as_implemented [of ?e ViewSourceAttempt] row wf ne mods
  show ?thesis by simp
qed

text \<open>
  Rows of the table that a handler does not implement: Ctrl+S passes the final handler
  untouched, Cmd+C passes the strict handler untouched, and Ctrl+A is logged by neither
  as a kind of its own (the strict handler logs nothing for it, the final handler logs
  the same type as for Ctrl+C).
\<close>

theorem key_table_rows_not_covered:
  "tableRow \<lparr>key = ''s'', keyCode = 83, ctrlKey = True, shiftKey = False, metaKey = False, altKey = False,
              target = Some \<lparr>tagName = ''DIV'', insideTawk = False\<rparr>\<rparr> SaveAttempt
   \<and> finalKeydown \<lparr>key = ''s'', keyCode = 83, ctrlKey = True, shiftKey = False, metaKey = False, altKey = False,
              target = Some \<lparr>tagName = ''DIV'', insideTawk = False\<rparr>\<rparr> = passed
   \<and> tableRow \<lparr>key = ''c'', keyCode = 67, ctrlKey = False, shiftKey = False, metaKey = True, altKey = False,
              target = Some \<lparr>tagName = ''DIV'', insideTawk = False\<rparr>\<rparr> CopyAttempt
   \<and> strictKeydown \<lparr>key = ''c'', keyCode = 67, ctrlKey = False, shiftKey = False, metaKey = True, altKey = False,
              target = Some \<lparr>tagName = ''DIV'', insideTawk = False\<rparr>\<rparr> = passed
   \<and> tableRow \<lparr>key = ''a'', keyCode = 65, ctrlKey = True, shiftKey = False, metaKey = False, altKey = False,
              target = Some \<lparr>tagName = ''DIV'', insideTawk = False\<rparr>\<rparr> SelectAllAttempt
   \<and> logged (strictKeydown \<lparr>key = ''a'', keyCode = 65, ctrlKey = True, shiftKey = False, metaKey = False, altKey = False,
              target = Some \<lparr>tagName = ''DIV'', insideTawk = False\<rparr>\<rparr>) = None
   \<and> logged (finalKeydown \<lparr>key = ''a'', keyCode = 65, ctrlKey = True, shiftKey = False, metaKey = False, altKey = False,
              target = Some \<lparr>tagName = ''DIV'', insideTawk = False\<rparr>\<rparr>) = Some (''copy_attempt'', ''Key combination: a'')
   \<and> tableRow \<lparr>key = ''c'', keyCode = 67, ctrlKey = True, shiftKey = False, metaKey = False, altKey = False,
              target = Some \<lparr>tagName = ''DIV'', insideTawk = False\<rparr>\<rparr> CopyAttempt
   \<and> logged (finalKeydown \<lparr>key = ''c'', keyCode = 67, ctrlKey = True, shiftKey = False, metaKey = False, altKey = False,
              target = Some \<lparr>tagName = ''DIV'', insideTawk = False\<rparr>\<rparr>) = Some (''copy_attempt'', ''Key combination: c'')"
  by (simp add: tableRow_def finalKeydown_def strictKeydown_def blockWith_def passed_def isExemptedElement_def Let_def)

text \<open>
  The Win+Shift+S test of the final handler compares \<^verbatim>\<open>e.key\<close> with \<^verbatim>\<open>'Meta'\<close> and
  \<^verbatim>\<open>e.keyCode\<close> with 83 in the same event; the event of the S key, with the Meta and
  Shift modifiers held, passes both handlers.
\<close>

lemma win_shift_s_passes:
  "tableRow \<lparr>key = ''S'', keyCode = 83, ctrlKey = False, shiftKey = True, metaKey = True, altKey = False,
              target = Some \<lparr>tagName = ''DIV'', insideTawk = False\<rparr>\<rparr> SnippingToolAttempt
   \<and> finalKeydown \<lparr>key = ''S'', keyCode = 83, ctrlKey = False, shiftKey = True, metaKey = True, altKey = False,
              target = Some \<lparr>tagName = ''DIV'', insideTawk = False\<rparr>\<rparr> = passed
   \<and> strictKeydown \<lparr>key = ''S'', keyCode = 83, ctrlKey = False, shiftKey = True, metaKey = True, altKey = False,
              target = Some \<lparr>tagName = ''DIV'', insideTawk = False\<rparr>\<rparr> = passed"
  by (simp add: tableRow_def finalKeydown_def strictKeydown_def passed_def Let_def)


section \<open>Properties of the session policy\<close>


lemma violate_snoc: "violate cfg (tys @ (ty # [])) w = incrementViolation cfg ty (violate cfg tys w)"
  by (simp add: violate_def)

lemma violate_Nil: "violate cfg [] w = w"
  by (simp add: violate_def)

lemma isWarning_simps:
  "isWarning (ViolationWarning n)" "\<not> isWarning (Logged a b)" "\<not> isWarning SecurityBlock"
  "\<not> isWarning TimeoutWarning" "\<not> isWarning (Navigate u)"
  by (simp_all add: isWarning_def)

lemma isLog_simps:
  "isLog (Logged a b)" "\<not> isLog (ViolationWarning n)" "\<not> isLog SecurityBlock"
  "\<not> isLog TimeoutWarning" "\<not> isLog (Navigate u)"
  by (simp_all add: isLog_def)

lemma isBlock_simps:
  "isBlock SecurityBlock" "\<not> isBlock (Logged a b)" "\<not> isBlock (ViolationWarning n)"
  "\<not> isBlock TimeoutWarning" "\<not> isBlock (Navigate u)"
  by (simp_all add: isBlock_def)

lemma maxViolations_core: "maxViolations coreConfig = 5"
  by (simp add: coreConfig_def)

text \<open>Invariants of a run from page load with the thresholds 3 and 5.\<close>

lemma violate_loaded:
  "violations (violate coreConfig tys (loaded t)) = length tys
   \<and> terminated (violate coreConfig tys (loaded t)) = (5 \<le> length tys)
   \<and> filter isWarning (effects (violate coreConfig tys (loaded t)))
       = map ViolationWarning [3 ..< min (Suc (length tys)) 5]
   \<and> length (filter isLog (effects (violate coreConfig tys (loaded t)))) = length tys + (length tys - 4)
   \<and> length (filter isBlock (effects (violate coreConfig tys (loaded t)))) = length tys - 4
   \<and> violationBanner (violate coreConfig tys (loaded t))
       = (if length tys = 3 \<or> length tys = 4 then Some (length tys) else None)"
proof (induction tys rule: rev_induct)
  case Nil
  show ?case by (simp add: violate_Nil loaded_def)
next
  case (snoc ty tys)
  let ?w = "violate coreConfig tys (loaded t)"
  from snoc have v: "violations ?w = length tys"
    and tm: "terminated ?w = (5 \<le> length tys)"
    and ws: "filter isWarning (effects ?w) = map ViolationWarning [3 ..< min (Suc (length tys)) 5]"
    and lg: "length (filter isLog (effects ?w)) = length tys + (length tys - 4)"
    and bl: "length (filter isBlock (effects ?w)) = length tys - 4"
    and bn: "violationBanner ?w = (if length tys = 3 \<or> length tys = 4 then Some (length tys) else None)"
    by simp_all
  consider (low) "length tys < 2" | (warn) "length tys = 2 \<or> length tys = 3" | (block) "4 \<le> length tys"
    by linarith
  then show ?case
  proof cases
    case low
    then show ?thesis
      using v tm ws lg bl bn
      by (simp add: violate_snoc incrementViolation_def logSecurityEvent_def maxViolations_core
            isWarning_simps isLog_simps isBlock_simps Let_def)
  next
    case warn
    then show ?thesis
      using v tm ws lg bl bn
      by (auto simp add: violate_snoc incrementViolation_def logSecurityEvent_def maxViolations_core
            showViolationWarning_def isWarning_simps isLog_simps isBlock_simps Let_def upt_rec)
  next
    case block
    then have m: "min (Suc (length tys)) 5 = 5" "min (Suc (Suc (length tys))) 5 = 5" by simp_all
    from block show ?thesis
      using v tm ws lg bl bn
      by (simp add: violate_snoc incrementViolation_def logSecurityEvent_def maxViolations_core
            showSecurityBlock_def isWarning_simps isLog_simps isBlock_simps Let_def m)
         arith
  qed
qed


text \<open>
  C4, as the code has it. Any sequence of violations counted from page load with the
  thresholds 3 and 5: after two, no warning has been shown; after three, exactly one
  warning has been shown, with the count 3 (a fourth shows one more); the termination
  notice is in place exactly when five or more have been counted, so no later violation
  undoes it; and every violation is still processed after that: the counter keeps
  counting, and from the fifth on each violation sends two log requests and renders the
  notice again.
\<close>

theorem violation_thresholds:
  "(length tys = 2 \<longrightarrow>
      filter isWarning (effects (violate coreConfig tys (loaded t))) = []
      \<and> violationBanner (violate coreConfig tys (loaded t)) = None)
   \<and> (length tys = 3 \<longrightarrow>
      filter isWarning (effects (violate coreConfig tys (loaded t))) = ViolationWarning 3 # []
      \<and> violationBanner (violate coreConfig tys (loaded t)) = Some 3)
   \<and> filter isWarning (effects (violate coreConfig tys (loaded t)))
       = map ViolationWarning [3 ..< min (Suc (length tys)) 5]
   \<and> terminated (violate coreConfig tys (loaded t)) = (5 \<le> length tys)
   \<and> violations (violate coreConfig tys (loaded t)) = length tys
   \<and> length (filter isLog (effects (violate coreConfig tys (loaded t)))) = length tys + (length tys - 4)
   \<and> length (filter isBlock (effects (violate coreConfig tys (loaded t)))) = length tys - 4"
proof -
  note inv = violate_loaded [of tys t]
  have two: "length tys = 2 \<longrightarrow>
      filter isWarning (effects (violate coreConfig tys (loaded t))) = []
      \<and> violationBanner (violate coreConfig tys (loaded t)) = None"
    using inv by simp
  have three: "length tys = 3 \<longrightarrow>
      filter isWarning (effects (violate coreConfig tys (loaded t))) = ViolationWarning 3 # []
      \<and> violationBanner (violate coreConfig tys (loaded t)) = Some 3"
    using inv by (simp add: upt_rec)
  from two three inv show ?thesis by blast
qed

theorem violation_thresholds_witness:
  "filter isWarning (effects (violate coreConfig (''screenshot_attempt'' # ''context_menu'' # ''printscreen'' # []) (loaded 0)))
     = ViolationWarning 3 # []
   \<and> violationBanner (violate coreConfig (''screenshot_attempt'' # ''context_menu'' # ''printscreen'' # []) (loaded 0)) = Some 3
   \<and> \<not> terminated (violate coreConfig (''screenshot_attempt'' # ''context_menu'' # ''printscreen'' # []) (loaded 0))
   \<and> violations (violate coreConfig (''screenshot_attempt'' # ''context_menu'' # ''printscreen'' # []) (loaded 0)) = 3"
  using violation_thresholds [of "''screenshot_attempt'' # ''context_menu'' # ''printscreen'' # []" 0]
  by simp

text \<open>
  A sixth violation, after the termination notice is in place, is processed like the
  fifth: the counter goes to 6, two more log requests are sent and the notice is
  rendered again.
\<close>

theorem violations_processed_after_termination:
  "terminated (violate coreConfig (''a'' # ''b'' # ''c'' # ''d'' # ''e'' # []) (loaded 0))
   \<and> violations (incrementViolation coreConfig ''f''
         (violate coreConfig (''a'' # ''b'' # ''c'' # ''d'' # ''e'' # []) (loaded 0))) = 6
   \<and> effects (incrementViolation coreConfig ''f''
         (violate coreConfig (''a'' # ''b'' # ''c'' # ''d'' # ''e'' # []) (loaded 0)))
     = effects (violate coreConfig (''a'' # ''b'' # ''c'' # ''d'' # ''e'' # []) (loaded 0))
       @ (Logged ''security_violation'' ((''type'', JStr ''f'') # (''count'', JNum 6) # [])
          # Logged ''session_terminated'' ((''reason'', JStr ''max_violations'') # [])
          # SecurityBlock # [])"
  by (simp add: violate_def incrementViolation_def logSecurityEvent_def showSecurityBlock_def
        showViolationWarning_def coreConfig_def loaded_def Let_def)



lemma checkSession_idle:
  assumes "idleTimeout cfg < now - lastActivity w"
  shows "checkSession cfg now w =
           navigate ''/accounts/signin/?timeout=idle''
             (logSecurityEvent ''session_timeout'' ((''reason'', JStr ''idle'') # []) w)"
    and "checkSessionFinal cfg url now w = navigate (url @ ''?timeout=idle'') w"
  using assms by (simp_all add: checkSession_def checkSessionFinal_def Let_def)

lemma checkSession_expired:
  assumes "\<not> idleTimeout cfg < now - lastActivity w" and "sessionTimeout cfg < now - sessionStart w"
  shows "checkSession cfg now w =
           navigate ''/accounts/signin/?timeout=expired''
             (logSecurityEvent ''session_timeout'' ((''reason'', JStr ''max_duration'') # []) w)"
    and "checkSessionFinal cfg url now w = navigate (url @ ''?timeout=expired'') w"
  using assms by (simp_all add: checkSession_def checkSessionFinal_def Let_def)

lemma navigate_simps:
  "location (navigate u w) = Some u" "effects (navigate u w) = effects w @ (Navigate u # [])"
  "effects (logSecurityEvent a b w) = effects w @ (Logged a b # [])"
  by (simp_all add: navigate_def logSecurityEvent_def)

lemma checkSession_violations:
  "checkSession cfg now (w\<lparr>violations := v\<rparr>) = (checkSession cfg now w)\<lparr>violations := v\<rparr>"
  "checkSessionFinal cfg url now (w\<lparr>violations := v\<rparr>) = (checkSessionFinal cfg url now w)\<lparr>violations := v\<rparr>"
  by (simp_all add: checkSession_def checkSessionFinal_def navigate_def logSecurityEvent_def
        showTimeoutWarning_def Let_def)

lemma reasons_differ: "url @ ''?timeout=idle'' \<noteq> url @ ''?timeout=expired''"
  by simp


text \<open>
  C5, as the code has it. A session check that finds the idle time above the idle
  threshold navigates to the sign-in page with the reason \<^verbatim>\<open>idle\<close>, whatever the
  session time; one that finds the idle time within the threshold and the session time
  above the cap navigates there with the reason \<^verbatim>\<open>expired\<close> (the idle test comes
  first). The violation counter plays no part: changing it changes nothing else of the
  result. Both \<^verbatim>\<open>checkSession\<close> functions are covered.
\<close>

theorem session_check_redirects:
  "(idleTimeout cfg < now - lastActivity w \<longrightarrow>
      location (checkSession cfg now w) = Some ''/accounts/signin/?timeout=idle''
      \<and> effects (checkSession cfg now w)
          = effects w @ (Logged ''session_timeout'' ((''reason'', JStr ''idle'') # [])
                         # Navigate ''/accounts/signin/?timeout=idle'' # [])
      \<and> location (checkSessionFinal cfg url now w) = Some (url @ ''?timeout=idle''))
   \<and> (\<not> idleTimeout cfg < now - lastActivity w \<and> sessionTimeout cfg < now - sessionStart w \<longrightarrow>
      location (checkSession cfg now w) = Some ''/accounts/signin/?timeout=expired''
      \<and> effects (checkSession cfg now w)
          = effects w @ (Logged ''session_timeout'' ((''reason'', JStr ''max_duration'') # [])
                         # Navigate ''/accounts/signin/?timeout=expired'' # [])
      \<and> location (checkSessionFinal cfg url now w) = Some (url @ ''?timeout=expired''))
   \<and> checkSession cfg now (w\<lparr>violations := v\<rparr>) = (checkSession cfg now w)\<lparr>violations := v\<rparr>
   \<and> checkSessionFinal cfg url now (w\<lparr>violations := v\<rparr>) = (checkSessionFinal cfg url now w)\<lparr>violations := v\<rparr>
   \<and> url @ ''?timeout=idle'' \<noteq> url @ ''?timeout=expired''"
proof (intro conjI impI)
  assume idle: "idleTimeout cfg < now - lastActivity w"
  show "location (checkSession cfg now w) = Some ''/accounts/signin/?timeout=idle''"
    by (simp only: checkSession_idle [OF idle] navigate_simps)
  show "effects (checkSession cfg now w)
          = effects w @ (Logged ''session_timeout'' ((''reason'', JStr ''idle'') # [])
                         # Navigate ''/accounts/signin/?timeout=idle'' # [])"
    by (simp only: checkSession_idle [OF idle] navigate_simps append_assoc append_Cons append_Nil)
  show "location (checkSessionFinal cfg url now w) = Some (url @ ''?timeout=idle'')"
    by (simp only: checkSession_idle [OF idle] navigate_simps)
next
  assume h: "\<not> idleTimeout cfg < now - lastActivity w \<and> sessionTimeout cfg < now - sessionStart w"
  then have n: "\<not> idleTimeout cfg < now - lastActivity w" and e: "sessionTimeout cfg < now - sessionStart w"
    by simp_all
  show "location (checkSession cfg now w) = Some ''/accounts/signin/?timeout=expired''"
    by (simp only: checkSession_expired [OF n e] navigate_simps)
  show "effects (checkSession cfg now w)
          = effects w @ (Logged ''session_timeout'' ((''reason'', JStr ''max_duration'') # [])
                         # Navigate ''/accounts/signin/?timeout=expired'' # [])"
    by (simp only: checkSession_expired [OF n e] navigate_simps append_assoc append_Cons append_Nil)
  show "location (checkSessionFinal cfg url now w) = Some (url @ ''?timeout=expired'')"
    by (simp only: checkSession_expired [OF n e] navigate_simps)
next
  show "checkSession cfg now (w\<lparr>violations := v\<rparr>) = (checkSession cfg now w)\<lparr>violations := v\<rparr>"
    by (rule checkSession_violations)
  show "checkSessionFinal cfg url now (w\<lparr>violations := v\<rparr>) = (checkSessionFinal cfg url now w)\<lparr>violations := v\<rparr>"
    by (rule checkSession_violations)
  show "url @ ''?timeout=idle'' \<noteq> url @ ''?timeout=expired''"
    by (rule reasons_differ)
qed

theorem session_check_redirects_witness:
  "violations (loaded 0) = 0
   \<and> location (checkSession coreConfig 300001 (loaded 0)) = Some ''/accounts/signin/?timeout=idle''
   \<and> location (checkSessionFinal finalConfig finalRedirectUrl 300001 (loaded 0)) = Some (finalRedirectUrl @ ''?timeout=idle'')
   \<and> location (checkSession coreConfig 900001 (updateActivity 900000 (loaded 0)))
       = Some ''/accounts/signin/?timeout=expired''
   \<and> location (checkSessionFinal finalConfig finalRedirectUrl 900001 (updateActivity 900000 (loaded 0)))
       = Some (finalRedirectUrl @ ''?timeout=expired'')"
proof -
  have a: "idleTimeout coreConfig < 300001 - lastActivity (loaded 0)"
    by (simp add: coreConfig_def loaded_def)
  have a': "idleTimeout finalConfig < 300001 - lastActivity (loaded 0)"
    by (simp add: finalConfig_def loaded_def)
  have b: "\<not> idleTimeout coreConfig < 900001 - lastActivity (updateActivity 900000 (loaded 0))
           \<and> sessionTimeout coreConfig < 900001 - sessionStart (updateActivity 900000 (loaded 0))"
    by (simp add: coreConfig_def loaded_def updateActivity_def)
  have b': "\<not> idleTimeout finalConfig < 900001 - lastActivity (updateActivity 900000 (loaded 0))
           \<and> sessionTimeout finalConfig < 900001 - sessionStart (updateActivity 900000 (loaded 0))"
    by (simp add: finalConfig_def loaded_def updateActivity_def)
  have z: "violations (loaded 0) = 0" by (simp add: loaded_def)
  from session_check_redirects [of coreConfig 300001 "loaded 0" finalRedirectUrl]
    a have 1: "location (checkSession coreConfig 300001 (loaded 0)) = Some ''/accounts/signin/?timeout=idle''"
    by blast
  from session_check_redirects [of finalConfig 300001 "loaded 0" finalRedirectUrl]
    a' have 2: "location (checkSessionFinal finalConfig finalRedirectUrl 300001 (loaded 0)) = Some (finalRedirectUrl @ ''?timeout=idle'')"
    by blast
  from session_check_redirects [of coreConfig 900001 "updateActivity 900000 (loaded 0)" finalRedirectUrl]
    b have 3: "location (checkSession coreConfig 900001 (updateActivity 900000 (loaded 0)))
       = Some ''/accounts/signin/?timeout=expired''"
    by blast
  from session_check_redirects [of finalConfig 900001 "updateActivity 900000 (loaded 0)" finalRedirectUrl]
    b' have 4: "location (checkSessionFinal finalConfig finalRedirectUrl 900001 (updateActivity 900000 (loaded 0)))
       = Some (finalRedirectUrl @ ''?timeout=expired'')"
    by blast
  from z 1 2 3 4 show ?thesis by blast
qed



text \<open>
  A check 1000 seconds after page load with no activity since: the session time is above
  the cap of 900 seconds, and the reason issued is \<^verbatim>\<open>idle\<close>, not \<^verbatim>\<open>expired\<close>, in
  both functions.
\<close>

theorem session_cap_yields_to_idle:
  "sessionTimeout coreConfig < 1000000 - sessionStart (loaded 0)
   \<and> location (checkSession coreConfig 1000000 (loaded 0)) = Some ''/accounts/signin/?timeout=idle''
   \<and> location (checkSession coreConfig 1000000 (loaded 0)) \<noteq> Some ''/accounts/signin/?timeout=expired''
   \<and> sessionTimeout finalConfig < 1000000 - sessionStart (loaded 0)
   \<and> location (checkSessionFinal finalConfig finalRedirectUrl 1000000 (loaded 0))
       = Some ''/auth/signin/?timeout=idle''"
  by (simp add: checkSession_def checkSessionFinal_def coreConfig_def finalConfig_def
        finalRedirectUrl_def loaded_def navigate_def logSecurityEvent_def Let_def)

section \<open>Properties of the notification socket\<close>















text \<open>
  C8. While the socket is absent or not open, \<^verbatim>\<open>markAsRead\<close>, \<^verbatim>\<open>markAllAsRead\<close> and
  \<^verbatim>\<open>loadNotifications\<close> leave the whole client as it is: no frame is sent and nothing
  is kept for later. While it is open, each sends its frame.
\<close>

theorem outbound_only_when_open:
  "(\<not> isOpen c \<longrightarrow>
      markAsRead i c = c \<and> markAllAsRead c = c \<and> loadNotifications l c = c)
   \<and> (isOpen c \<longrightarrow>
      sentFrames (markAsRead i c)
        = sentFrames c @ (JObj ((''action'', JStr ''mark_read'') # (''notification_id'', i) # []) # [])
      \<and> sentFrames (markAllAsRead c)
        = sentFrames c @ (JObj ((''action'', JStr ''mark_all_read'') # []) # [])
      \<and> sentFrames (loadNotifications l c)
        = sentFrames c @ (JObj ((''action'', JStr ''get_notifications'') # (''limit'', JNum l) # []) # []))"
  by (auto simp add: markAsRead_def markAllAsRead_def loadNotifications_def send_def sentFrames_def
        isOpen_def split: option.splits)

theorem outbound_only_when_open_witness:
  "markAsRead (JNum 7) (newClient None) = newClient None
   \<and> markAllAsRead (newClient None) = newClient None
   \<and> loadNotifications 10 (newClient None) = newClient None
   \<and> sentFrames (socketOpened (markAllAsRead (newClient None))) = []
   \<and> sentFrames (markAllAsRead (socketOpened (newClient None)))
       = JObj ((''action'', JStr ''mark_all_read'') # []) # []"
proof -
  have closed: "\<not> isOpen (newClient None)"
    by (simp add: newClient_def connect_def isOpen_def)
  have opened: "isOpen (socketOpened (newClient None))"
    by (simp add: newClient_def connect_def isOpen_def socketOpened_def onopen_def setState_def
          showConnectionToast_def)
  have none: "sentFrames (socketOpened (newClient None)) = []"
    by (simp add: newClient_def connect_def isOpen_def socketOpened_def onopen_def setState_def
          showConnectionToast_def sentFrames_def)
  from outbound_only_when_open [of "newClient None" "JNum 7" 10] closed
  have 1: "markAsRead (JNum 7) (newClient None) = newClient None"
    and 2: "markAllAsRead (newClient None) = newClient None"
    and 3: "loadNotifications 10 (newClient None) = newClient None"
    by simp_all
  from outbound_only_when_open [of "socketOpened (newClient None)" "JNum 7" 10] opened
  have 4: "sentFrames (markAllAsRead (socketOpened (newClient None)))
       = sentFrames (socketOpened (newClient None)) @ (JObj ((''action'', JStr ''mark_all_read'') # []) # [])"
    by simp
  from 1 2 3 4 none show ?thesis by simp
qed


section \<open>Properties of the badge\<close>



lemma digit_char: "d < 10 \<Longrightarrow> (of_char (char_of (48 + d)) :: nat) = 48 + d"
  by simp

lemma digitOf_digit: "d < 10 \<Longrightarrow> digitOf (char_of (48 + d)) = Some d"
  by (simp add: digitOf_def Let_def)

lemma decimal_string_of_nat: "list_all decimal (string_of_nat n)"
proof (induction n rule: string_of_nat.induct)
  case (1 n)
  show ?case
  proof (cases "n < 10")
    case True
    then show ?thesis by (subst string_of_nat.simps) (simp add: decimal_def)
  next
    case False
    with "1" have "list_all decimal (string_of_nat (n div 10))" by simp
    moreover have "decimal (char_of (48 + n mod 10))" by (simp add: decimal_def)
    ultimately show ?thesis using False by (subst string_of_nat.simps) simp
  qed
qed

lemma string_of_nat_nonempty: "string_of_nat n \<noteq> []"
  by (subst string_of_nat.simps) simp

lemma decimal_digitOf: "decimal ch \<Longrightarrow> \<exists>d < 10. digitOf ch = Some d"
  by (auto simp add: decimal_def digitOf_def Let_def)

lemma parseDigits_append:
  "list_all decimal xs \<Longrightarrow> parseDigits 10 (xs @ ys) acc = parseDigits 10 ys (parseDigits 10 xs acc)"
proof (induction xs arbitrary: acc)
  case Nil
  then show ?case by simp
next
  case (Cons x xs)
  then obtain d where "d < 10" "digitOf x = Some d" using decimal_digitOf by auto
  with Cons show ?case by simp
qed

lemma parseDigits_string_of_nat: "parseDigits 10 (string_of_nat n) None = Some n"
proof (induction n rule: string_of_nat.induct)
  case (1 n)
  show ?case
  proof (cases "n < 10")
    case True
    then show ?thesis by (subst string_of_nat.simps) (simp add: digitOf_digit)
  next
    case False
    with "1" have ih: "parseDigits 10 (string_of_nat (n div 10)) None = Some (n div 10)" by simp
    have "parseDigits 10 (string_of_nat (n div 10) @ (char_of (48 + n mod 10) # [])) None
            = parseDigits 10 (char_of (48 + n mod 10) # []) (Some (n div 10))"
      by (simp only: parseDigits_append [OF decimal_string_of_nat] ih)
    also have "\<dots> = Some (n div 10 * 10 + n mod 10)"
      by (simp add: digitOf_digit)
    finally show ?thesis using False by (subst string_of_nat.simps) simp
  qed
qed

lemma decimal_not_white: "decimal ch \<Longrightarrow> \<not> isWhite ch"
  by (auto simp add: decimal_def isWhite_def)

lemma decimal_not_sign: "decimal ch \<Longrightarrow> ch \<noteq> CHR ''-'' \<and> ch \<noteq> CHR ''+'' \<and> ch \<noteq> CHR ''x'' \<and> ch \<noteq> CHR ''X''"
  by (auto simp add: decimal_def)

lemma parseInt_decimal:
  assumes "list_all decimal s" and "s \<noteq> []"
  shows "parseInt s = map_option int (parseDigits 10 s None)"
proof -
  from assms obtain a r where s: "s = a # r" and a: "decimal a" and r: "list_all decimal r"
    by (cases s) auto
  have dw: "dropWhile isWhite s = s" using s a decimal_not_white by simp
  have t1: "take 1 s \<noteq> ''-''" "take 1 s \<noteq> ''+''" using s a decimal_not_sign by auto
  have t2: "take 2 s \<noteq> ''0x''" "take 2 s \<noteq> ''0X''"
    using s r decimal_not_sign by (cases r; auto)+
  show ?thesis
    unfolding parseInt_def dw Let_def using t1 t2 by simp
qed

lemma parseInt_string_of_nat: "parseInt (string_of_nat n) = Some (int n)"
  by (simp add: parseInt_decimal [OF decimal_string_of_nat string_of_nat_nonempty]
        parseDigits_string_of_nat)

lemma parseInt_cap: "parseInt ''99+'' = Some 99"
  by (simp add: parseInt_def isWhite_def digitOf_def Let_def)


lemma new_notification_badge:
  assumes "badge c = Some b"
    and "parseInt (if textContent b = [] then ''0'' else textContent b) = Some n"
    and "0 \<le> n"
  shows "badge (handleMessage (NewNotification x) c)
           = Some (b\<lparr>textContent := (if 99 \<le> n then ''99+'' else string_of_nat (nat (n + 1))),
                     displayed := True\<rparr>)"
  using assms
  by (simp add: handleMessage_def handleNewNotification_def updateUnreadBadge_def
        showBrowserNotification_def showNotificationToast_def loadNotifications_def send_def Let_def)

lemma new_notification_toast:
  "toasts (handleMessage (NewNotification x) c) = toasts c @ (x # [])"
  by (simp add: handleMessage_def handleNewNotification_def updateUnreadBadge_def
        showBrowserNotification_def showNotificationToast_def loadNotifications_def send_def Let_def
        split: option.splits)

lemma new_notification_no_badge:
  "badge c = None \<Longrightarrow> badge (handleMessage (NewNotification x) c) = None"
  by (simp add: handleMessage_def handleNewNotification_def
        showBrowserNotification_def showNotificationToast_def loadNotifications_def send_def Let_def)

lemma mark_all_read_hides:
  "badge c = Some b \<Longrightarrow>
     badge (handleMessage (MarkAllReadResponse k) c) = Some (b\<lparr>displayed := False\<rparr>)"
  by (simp add: handleMessage_def updateUnreadBadge_def)

text \<open>
  C9, as the code has it. On a page whose badge shows the count \<open>n\<close> (its text starts
  with \<open>n\<close>; a hidden badge with an empty or zero text is the count 0), a
  \<^verbatim>\<open>new_notification\<close> frame sets the badge to \<open>n + 1\<close> and displays it when \<open>n\<close> is
  below 99, and to \<^verbatim>\<open>99+\<close> from 99 on; it adds exactly one toast; a following
  \<^verbatim>\<open>mark_all_read_response\<close> hides the badge, which reads as the count 0, and adds no
  toast. On a page without the badge element the frame adds the toast only.
\<close>

theorem badge_round_trip:
  "(badge c = Some b
      \<and> parseInt (if textContent b = [] then ''0'' else textContent b) = Some n
      \<and> 0 \<le> n \<and> (displayed b \<or> n = 0) \<longrightarrow>
      badge (handleMessage (NewNotification x) c)
        = Some (b\<lparr>textContent := (if 99 \<le> n then ''99+'' else string_of_nat (nat (n + 1))),
                  displayed := True\<rparr>)
      \<and> (n < 99 \<longrightarrow> badgeCount (handleMessage (NewNotification x) c) = Some (n + 1))
      \<and> badgeCount (handleMessage (MarkAllReadResponse k) (handleMessage (NewNotification x) c)) = Some 0)
   \<and> (badge c = None \<longrightarrow> badge (handleMessage (NewNotification x) c) = None)
   \<and> toasts (handleMessage (NewNotification x) c) = toasts c @ (x # [])
   \<and> toasts (handleMessage (MarkAllReadResponse k) (handleMessage (NewNotification x) c))
       = toasts c @ (x # [])"
proof -
  let ?c1 = "handleMessage (NewNotification x) c"
  let ?b1 = "b\<lparr>textContent := (if 99 \<le> n then ''99+'' else string_of_nat (nat (n + 1))), displayed := True\<rparr>"
  have shown: "badge c = Some b
      \<and> parseInt (if textContent b = [] then ''0'' else textContent b) = Some n
      \<and> 0 \<le> n \<and> (displayed b \<or> n = 0) \<longrightarrow>
      badge ?c1 = Some ?b1
      \<and> (n < 99 \<longrightarrow> badgeCount ?c1 = Some (n + 1))
      \<and> badgeCount (handleMessage (MarkAllReadResponse k) ?c1) = Some 0"
  proof
    assume h: "badge c = Some b
      \<and> parseInt (if textContent b = [] then ''0'' else textContent b) = Some n
      \<and> 0 \<le> n \<and> (displayed b \<or> n = 0)"
    then have h1: "badge c = Some b"
      and h2: "parseInt (if textContent b = [] then ''0'' else textContent b) = Some n"
      and h3: "0 \<le> n"
      by simp_all
    have b1: "badge ?c1 = Some ?b1"
      using h1 h2 h3 by (rule new_notification_badge)
    have cnt: "n < 99 \<longrightarrow> badgeCount ?c1 = Some (n + 1)"
      using h3 by (simp add: badgeCount_def b1 parseInt_string_of_nat)
    have hid: "badge (handleMessage (MarkAllReadResponse k) ?c1) = Some (?b1\<lparr>displayed := False\<rparr>)"
      using b1 by (rule mark_all_read_hides)
    have zero: "badgeCount (handleMessage (MarkAllReadResponse k) ?c1) = Some 0"
      by (simp add: badgeCount_def hid)
    from b1 cnt zero show "badge ?c1 = Some ?b1
      \<and> (n < 99 \<longrightarrow> badgeCount ?c1 = Some (n + 1))
      \<and> badgeCount (handleMessage (MarkAllReadResponse k) ?c1) = Some 0"
      by blast
  qed
  have absent: "badge c = None \<longrightarrow> badge ?c1 = None"
    using new_notification_no_badge by blast
  have t1: "toasts ?c1 = toasts c @ (x # [])" by (rule new_notification_toast)
  have t2: "toasts (handleMessage (MarkAllReadResponse k) ?c1) = toasts c @ (x # [])"
    using t1 by (simp add: handleMessage_def updateUnreadBadge_def split: option.splits)
  from shown absent t1 t2 show ?thesis by blast
qed

theorem badge_round_trip_witness:
  "badge (handleMessage (NewNotification \<lparr>n_id = 1, n_title = ''New customer'', n_message = ''A customer registered'', n_link = ''/customers/1/''\<rparr>)
      (newClient (Some \<lparr>textContent = ''4'', displayed = True\<rparr>)))
     = Some \<lparr>textContent = ''5'', displayed = True\<rparr>
   \<and> badgeCount (handleMessage (NewNotification \<lparr>n_id = 1, n_title = ''New customer'', n_message = ''A customer registered'', n_link = ''/customers/1/''\<rparr>)
      (newClient (Some \<lparr>textContent = ''4'', displayed = True\<rparr>))) = Some 5
   \<and> toasts (handleMessage (NewNotification \<lparr>n_id = 1, n_title = ''New customer'', n_message = ''A customer registered'', n_link = ''/customers/1/''\<rparr>)
      (newClient (Some \<lparr>textContent = ''4'', displayed = True\<rparr>)))
     = \<lparr>n_id = 1, n_title = ''New customer'', n_message = ''A customer registered'', n_link = ''/customers/1/''\<rparr> # []
   \<and> badgeCount (handleMessage (MarkAllReadResponse 5)
      (handleMessage (NewNotification \<lparr>n_id = 1, n_title = ''New customer'', n_message = ''A customer registered'', n_link = ''/customers/1/''\<rparr>)
        (newClient (Some \<lparr>textContent = ''4'', displayed = True\<rparr>)))) = Some 0"
proof -
  let ?b = "\<lparr>textContent = ''4'', displayed = True\<rparr>"
  let ?c = "newClient (Some ?b)"
  have h1: "badge ?c = Some ?b" by (simp add: newClient_def connect_def)
  have h2: "parseInt (if textContent ?b = [] then ''0'' else textContent ?b) = Some 4"
    by (simp add: parseInt_def isWhite_def digitOf_def Let_def)
  have h3: "(0::int) \<le> 4" by simp
  have h4: "displayed ?b \<or> (4::int) = 0" by simp
  have t: "toasts ?c = []" by (simp add: newClient_def connect_def)
  have s: "string_of_nat (nat (4 + 1)) = ''5''" by code_simp
  from badge_round_trip [of ?c ?b 4] h1 h2 h3 h4 t s show ?thesis by simp
qed

text \<open>
  A badge seeded with 150 unread shows \<^verbatim>\<open>99+\<close>, and still shows \<^verbatim>\<open>99+\<close> after a
  \<^verbatim>\<open>new_notification\<close> frame; a page without the badge element has no count before or
  after the frame.
\<close>

theorem badge_saturates_or_is_absent:
  "badgeCount (handleMessage (UnreadCount 150) (newClient (Some \<lparr>textContent = [], displayed = False\<rparr>))) = Some 99
   \<and> badgeCount (handleMessage (NewNotification \<lparr>n_id = 1, n_title = ''New customer'', n_message = ''A customer registered'', n_link = ''/customers/1/''\<rparr>)
        (handleMessage (UnreadCount 150) (newClient (Some \<lparr>textContent = [], displayed = False\<rparr>)))) = Some 99
   \<and> badge (handleMessage (NewNotification \<lparr>n_id = 1, n_title = ''New customer'', n_message = ''A customer registered'', n_link = ''/customers/1/''\<rparr>)
        (handleMessage (UnreadCount 150) (newClient (Some \<lparr>textContent = [], displayed = False\<rparr>))))
       = Some \<lparr>textContent = ''99+'', displayed = True\<rparr>
   \<and> badgeCount (newClient None) = None
   \<and> badgeCount (handleMessage (NewNotification \<lparr>n_id = 1, n_title = ''New customer'', n_message = ''A customer registered'', n_link = ''/customers/1/''\<rparr>)
        (newClient None)) = None"
  by (simp add: badgeCount_def handleMessage_def handleNewNotification_def updateUnreadBadge_def
        showBrowserNotification_def showNotificationToast_def loadNotifications_def send_def
        newClient_def connect_def isOpen_def parseInt_def isWhite_def digitOf_def Let_def)

text \<open>
  \<^verbatim>\<open>updateUnreadBadge(0)\<close> hides the badge and keeps its text, and
  \<^verbatim>\<open>handleNewNotification\<close> reads the text of a hidden badge: five unread, all marked
  read, then one new notification, and the badge shows 6.
\<close>

lemma string_of_nat_5_6: "string_of_nat 5 = ''5''" "string_of_nat 6 = ''6''"
  by code_simp+

lemma badge_after_mark_all_read:
  "badge (handleMessage (NewNotification x)
      (handleMessage (MarkAllReadResponse 5)
        (handleMessage (UnreadCount 5) (newClient (Some \<lparr>textContent = [], displayed = False\<rparr>)))))
     = Some \<lparr>textContent = ''6'', displayed = True\<rparr>"
proof -
  let ?c0 = "newClient (Some \<lparr>textContent = [], displayed = False\<rparr>)"
  let ?c1 = "handleMessage (UnreadCount 5) ?c0"
  let ?c2 = "handleMessage (MarkAllReadResponse 5) ?c1"
  have b0: "badge ?c0 = Some \<lparr>textContent = [], displayed = False\<rparr>"
    by (simp add: newClient_def connect_def)
  have b1: "badge ?c1 = Some \<lparr>textContent = ''5'', displayed = True\<rparr>"
    by (simp add: handleMessage_def updateUnreadBadge_def b0 string_of_nat_5_6)
  have b2: "badge ?c2 = Some \<lparr>textContent = ''5'', displayed = False\<rparr>"
    using mark_all_read_hides [OF b1, of 5] by simp
  have p: "parseInt (if textContent \<lparr>textContent = ''5'', displayed = False\<rparr> = [] then ''0''
                     else textContent \<lparr>textContent = ''5'', displayed = False\<rparr>) = Some 5"
    by (simp add: parseInt_def isWhite_def digitOf_def Let_def)
  from new_notification_badge [OF b2 p, of x] show ?thesis
    by (simp add: string_of_nat_5_6)
qed


end
